theory Spec2Isabelle
  imports Complex_Main "HOL-Library.Word"
begin

unbundle bit_operations_syntax

section \<open>Rasters and Python errors\<close>

text \<open>
  The scripts work on numpy arrays of unsigned bytes. A one-channel raster (a mask or a
  greyscale image) is a list of rows of bytes; a colour raster is a list of rows of
  three-channel pixels. Exceptions of the Python code are values of \<open>pyerror\<close>; a
  RequestException of the requests library carries its message.
\<close>

datatype pyerror = IndexError | ZeroDivisionError | CvError | FileNotFoundError
  | RequestException string

type_synonym byte = "8 word"
type_synonym pixel = "byte \<times> byte \<times> byte"
type_synonym mask = "byte list list"
type_synonym image = "pixel list list"

text \<open>The second component of a numpy shape: the length of the first row.\<close>

definition ncols :: "'a list list \<Rightarrow> nat" where
  "ncols m = (case m of [] \<Rightarrow> 0 | r # _ \<Rightarrow> length r)"

text \<open>A numpy array is rectangular: every row has the length of the first one.\<close>

definition rectangular :: "'a list list \<Rightarrow> bool" where
  "rectangular m = list_all (\<lambda>r. length r = ncols m) m"

text \<open>\<open>a[i, j]\<close> for non-negative indices: out of range raises IndexError.\<close>

definition getitem2 :: "'a list list \<Rightarrow> nat \<Rightarrow> nat \<Rightarrow> pyerror + 'a" where
  "getitem2 a i j =
     (if i < length a \<and> j < length (a ! i) then Inr (a ! i ! j) else Inl IndexError)"

text \<open>\<open>a[i, j] = v\<close> on an array whose indices are in range.\<close>

definition setitem2 :: "'a list list \<Rightarrow> nat \<Rightarrow> nat \<Rightarrow> 'a \<Rightarrow> 'a list list" where
  "setitem2 a i j v = a[i := (a ! i)[j := v]]"

section \<open>evaluation.py: compare\<close>

text \<open>
  The state of the two nested loops of \<open>compare\<close>: the result map and the four
  counters of the confusion matrix.
\<close>

record cmp_state =
  resultMap :: image
  tp :: nat
  fp :: nat
  fn :: nat
  tn :: nat

text \<open>The body of the inner loop (evaluation.py, lines 282-298).\<close>

definition compare_pixel :: "mask \<Rightarrow> mask \<Rightarrow> nat \<Rightarrow> nat \<Rightarrow> cmp_state \<Rightarrow> pyerror + cmp_state" where
  "compare_pixel shapesMask groundTruthMask i j st =
     (case getitem2 shapesMask i j of
        Inl e \<Rightarrow> Inl e
      | Inr shapePixel \<Rightarrow>
     (case getitem2 groundTruthMask i j of
        Inl e \<Rightarrow> Inl e
      | Inr gtPixel \<Rightarrow>
          if shapePixel = 0 \<and> gtPixel = 0 then
            Inr (st\<lparr>resultMap := setitem2 (resultMap st) i j (0, 255, 0), tp := tp st + 1\<rparr>)
          else if shapePixel = 0 \<and> gtPixel > 0 then
            Inr (st\<lparr>resultMap := setitem2 (resultMap st) i j (255, 255, 0), fp := fp st + 1\<rparr>)
          else if shapePixel > 0 \<and> gtPixel = 0 then
            Inr (st\<lparr>resultMap := setitem2 (resultMap st) i j (255, 0, 0), fn := fn st + 1\<rparr>)
          else
            Inr (st\<lparr>resultMap := setitem2 (resultMap st) i j (0, 0, 0), tn := tn st + 1\<rparr>)))"

text \<open>\<open>for j in range(width)\<close>, over the list of the remaining column indices.\<close>

fun compare_cols :: "mask \<Rightarrow> mask \<Rightarrow> nat \<Rightarrow> nat list \<Rightarrow> cmp_state \<Rightarrow> pyerror + cmp_state" where
  "compare_cols sm gt i [] st = Inr st"
| "compare_cols sm gt i (j # js) st =
     (case compare_pixel sm gt i j st of
        Inl e \<Rightarrow> Inl e
      | Inr st' \<Rightarrow> compare_cols sm gt i js st')"

text \<open>\<open>for i in range(height)\<close>, over the list of the remaining row indices.\<close>

fun compare_rows :: "mask \<Rightarrow> mask \<Rightarrow> nat \<Rightarrow> nat list \<Rightarrow> cmp_state \<Rightarrow> pyerror + cmp_state" where
  "compare_rows sm gt width [] st = Inr st"
| "compare_rows sm gt width (i # is) st =
     (case compare_cols sm gt i [0..<width] st of
        Inl e \<Rightarrow> Inl e
      | Inr st' \<Rightarrow> compare_rows sm gt width is st')"

text \<open>What \<open>compare\<close> computes before it plots: the result map, the counters and the three scores.\<close>

record cmp_result =
  res_map :: image
  res_tp :: nat
  res_fp :: nat
  res_fn :: nat
  res_tn :: nat
  precision :: real
  recall :: real
  accuracy :: real

text \<open>
  \<open>compare\<close> from the two decoded greyscale masks on (evaluation.py, lines 271-303).
  The quotients are Python's true division of two counters, written as exact division.
\<close>

definition compare :: "mask \<Rightarrow> mask \<Rightarrow> pyerror + cmp_result" where
  "compare shapesMask groundTruthMask =
     (let height = length shapesMask;
          width = ncols shapesMask;
          init = \<lparr>resultMap = replicate height (replicate width (0, 0, 0)),
                  tp = 0, fp = 0, fn = 0, tn = 0\<rparr>
      in case compare_rows shapesMask groundTruthMask width [0..<height] init of
           Inl e \<Rightarrow> Inl e
         | Inr st \<Rightarrow>
             Inr \<lparr>res_map = resultMap st,
                  res_tp = tp st, res_fp = fp st, res_fn = fn st, res_tn = tn st,
                  precision = (if tp st + fp st \<noteq> 0 then real (tp st) / real (tp st + fp st) else 0),
                  recall = (if tp st + fn st \<noteq> 0 then real (tp st) / real (tp st + fn st) else 0),
                  accuracy = (if tp st + fp st + tn st + fn st \<noteq> 0
                              then real (tp st + tn st) / real (tp st + tn st + fp st + fn st)
                              else 0)\<rparr>)"

text \<open>The result map shows only green ("both black") and black ("both white") pixels.\<close>

definition gb_map :: "image \<Rightarrow> bool" where
  "gb_map rm = (\<forall>row\<in>set rm. \<forall>p\<in>set row. p = (0,255,0) \<or> p = (0,0,0))"

text \<open>The number of black (zero) pixels of row \<open>i\<close> among the columns \<open>js\<close>.\<close>

definition zero_count :: "mask \<Rightarrow> nat \<Rightarrow> nat list \<Rightarrow> nat" where
  "zero_count m i js = length (filter (\<lambda>j. m ! i ! j = 0) js)"

section \<open>Arrays by reference, files and printed output\<close>

text \<open>
  The filters receive numpy arrays by reference and mutate some arrays in place. The colour
  arrays live in a heap of addresses; \<open>next_addr\<close> is the first address that is not
  allocated yet. The file system maps a path to the bytes of a file and knows which
  directories exist; \<open>stdout\<close> collects the printed lines.
\<close>

type_synonym addr = nat

datatype raster = Colour image | Grey mask

record world =
  heap :: "addr \<Rightarrow> image"
  next_addr :: addr
  files :: "string \<Rightarrow> byte list option"
  dirs :: "string list"
  stdout :: "string list"

text \<open>A new array object holding \<open>img\<close>: every call that returns a new array.\<close>

definition alloc :: "world \<Rightarrow> image \<Rightarrow> world \<times> addr" where
  "alloc w img = (w\<lparr>heap := (heap w)(next_addr w := img), next_addr := Suc (next_addr w)\<rparr>, next_addr w)"

text \<open>\<open>a.copy()\<close>: a new array with the contents of the array at \<open>a\<close>.\<close>

definition copy :: "world \<Rightarrow> addr \<Rightarrow> world \<times> addr" where
  "copy w a = alloc w (heap w a)"

text \<open>An in-place operation on the array at \<open>a\<close>, which leaves it with the contents \<open>img\<close>.\<close>

definition store :: "world \<Rightarrow> addr \<Rightarrow> image \<Rightarrow> world" where
  "store w a img = w\<lparr>heap := (heap w)(a := img)\<rparr>"



section \<open>Pixel-wise operations of numpy and OpenCV\<close>

text \<open>Two arrays have the same height and width.\<close>

definition same_shape :: "'a list list \<Rightarrow> 'b list list \<Rightarrow> bool" where
  "same_shape a b = (map length a = map length b)"

text \<open>A function of the row index, the column index and the pixel, applied to every pixel.\<close>

definition imap2d :: "(nat \<Rightarrow> nat \<Rightarrow> 'a \<Rightarrow> 'b) \<Rightarrow> 'a list list \<Rightarrow> 'b list list" where
  "imap2d f a = map (\<lambda>(i, row). map (\<lambda>(j, p). f i j p) (enumerate 0 row)) (enumerate 0 a)"

text \<open>A function of two pixels applied to every pair of pixels of two arrays of one shape.\<close>

definition zip2d :: "('a \<Rightarrow> 'b \<Rightarrow> 'c) \<Rightarrow> 'a list list \<Rightarrow> 'b list list \<Rightarrow> 'c list list" where
  "zip2d f a b = map (\<lambda>(ra, rb). map (\<lambda>(p, q). f p q) (zip ra rb)) (zip a b)"

text \<open>\<open>np.zeros_like(a)\<close> for a one-channel result.\<close>

definition zeros_like :: "'a list list \<Rightarrow> mask" where
  "zeros_like a = map (map (\<lambda>_. 0)) a"

text \<open>
  \<open>cv2.inRange(src, lowerb, upperb)\<close> on a three-channel array: 255 where every channel
  lies between its two bounds (both included), 0 elsewhere.
\<close>

definition inRange_px :: "pixel \<Rightarrow> pixel \<Rightarrow> pixel \<Rightarrow> bool" where
  "inRange_px p lo hi =
     (case (p, lo, hi) of ((c0, c1, c2), (l0, l1, l2), (h0, h1, h2)) \<Rightarrow>
        l0 \<le> c0 \<and> c0 \<le> h0 \<and> l1 \<le> c1 \<and> c1 \<le> h1 \<and> l2 \<le> c2 \<and> c2 \<le> h2)"

definition inRange :: "image \<Rightarrow> pixel \<Rightarrow> pixel \<Rightarrow> mask" where
  "inRange src lo hi = map (map (\<lambda>p. if inRange_px p lo hi then 255 else 0)) src"

text \<open>\<open>cv2.countNonZero(m)\<close>.\<close>

definition countNonZero :: "mask \<Rightarrow> nat" where
  "countNonZero m = length (filter (\<lambda>v. v \<noteq> 0) (concat m))"

text \<open>\<open>cv2.bitwise_not(m)\<close> and \<open>~m\<close>.\<close>

definition bitwise_not :: "mask \<Rightarrow> mask" where
  "bitwise_not m = map (map (\<lambda>v. NOT v)) m"

text \<open>\<open>cv2.bitwise_and(a, b)\<close> and \<open>cv2.bitwise_or(a, b)\<close> on masks: the sizes must agree.\<close>

definition bitwise_and :: "mask \<Rightarrow> mask \<Rightarrow> pyerror + mask" where
  "bitwise_and a b = (if same_shape a b then Inr (zip2d (\<lambda>x y. x AND y) a b) else Inl CvError)"

definition bitwise_or :: "mask \<Rightarrow> mask \<Rightarrow> pyerror + mask" where
  "bitwise_or a b = (if same_shape a b then Inr (zip2d (\<lambda>x y. x OR y) a b) else Inl CvError)"

text \<open>
  \<open>cv2.bitwise_and(src, src, mask=m)\<close> into a new array: the pixel of \<open>src\<close> where the mask
  is not zero, zero elsewhere; the sizes must agree.
\<close>

definition bitwise_and_masked :: "image \<Rightarrow> mask \<Rightarrow> pyerror + image" where
  "bitwise_and_masked src m =
     (if same_shape src m then Inr (zip2d (\<lambda>p v. if v \<noteq> 0 then p else (0, 0, 0)) src m)
      else Inl CvError)"

text \<open>
  \<open>cv2.threshold(src, thresh, 255, cv2.THRESH_BINARY)\<close>: 255 where the value is above the
  threshold, 0 elsewhere.
\<close>

definition threshold_binary :: "mask \<Rightarrow> byte \<Rightarrow> mask" where
  "threshold_binary src thresh = map (map (\<lambda>v. if v > thresh then 255 else 0)) src"

text \<open>
  \<open>a[m == k] = v\<close> with a boolean index: numpy raises IndexError unless the index has the
  height and width of \<open>a\<close>.
\<close>

definition setitem_where :: "image \<Rightarrow> mask \<Rightarrow> byte \<Rightarrow> pixel \<Rightarrow> pyerror + image" where
  "setitem_where a m k v =
     (if same_shape a m then Inr (zip2d (\<lambda>p x. if x = k then v else p) a m) else Inl IndexError)"

text \<open>
  \<open>a[np.where((m == k).all(axis=2))] = v\<close>: the positions where \<open>m\<close> holds the pixel
  \<open>k\<close> are assigned in \<open>a\<close>; a position outside \<open>a\<close> raises IndexError.
\<close>

definition where_all :: "image \<Rightarrow> pixel \<Rightarrow> (nat \<times> nat) list" where
  "where_all m k = concat (map (\<lambda>(i, row). map (\<lambda>(j, p). (i, j)) (filter (\<lambda>(j, p). p = k) (enumerate 0 row))) (enumerate 0 m))"

definition setitem_at :: "image \<Rightarrow> (nat \<times> nat) list \<Rightarrow> pixel \<Rightarrow> pyerror + image" where
  "setitem_at a idx v =
     (if list_all (\<lambda>(i, j). i < length a \<and> j < length (a ! i)) idx
      then Inr (imap2d (\<lambda>i j p. if (i, j) \<in> set idx then v else p) a)
      else Inl IndexError)"

text \<open>
  \<open>cv2.drawContours(dst, [contour], -1, colour, cv2.FILLED)\<close>: the pixels that OpenCV's
  polygon fill covers for the contour (\<open>inside contour i j\<close>, row \<open>i\<close> and column \<open>j\<close>) take
  the colour, the others stay.
\<close>

definition drawContours_filled :: "('c \<Rightarrow> nat \<Rightarrow> nat \<Rightarrow> bool) \<Rightarrow> 'c \<Rightarrow> 'a \<Rightarrow> 'a list list \<Rightarrow> 'a list list" where
  "drawContours_filled inside contour colour dst =
     imap2d (\<lambda>i j p. if inside contour i j then colour else p) dst"

text \<open>
  The area test of both filters:
  \<open>cv2.contourArea(contour) < totalPixels / 2 and cv2.contourArea(contour) > 100\<close>.
\<close>

definition area_filter :: "nat \<Rightarrow> real \<Rightarrow> bool" where
  "area_filter totalPixels area = (area < real totalPixels / 2 \<and> area > 100)"

text \<open>\<open>width, height, _ = a.shape; totalPixels = width * height\<close>.\<close>

definition totalPixels :: "'a list list \<Rightarrow> nat" where
  "totalPixels a = length a * ncols a"

section \<open>The OpenCV functions the filters call\<close>

text \<open>
  The numerics of OpenCV are not part of the repository. The functions whose result is not a
  plain pixel-wise formula are parameters of the model, collected in one record; \<open>'c\<close> is the
  type of a traced contour. \<open>filled c i j\<close> says that drawing contour \<open>c\<close> with
  \<open>cv2.FILLED\<close> paints the pixel in row \<open>i\<close> and column \<open>j\<close>; \<open>outline c i j\<close> says the
  same for a line thickness of 1.
\<close>

datatype kernel = MorphRect nat nat | MorphEllipse nat nat | Ones nat nat

record 'c cv2 =
  imdecode :: "byte list \<Rightarrow> image option"
  imencode :: "string \<Rightarrow> raster \<Rightarrow> byte list"
  cvtColor_BGR2GRAY :: "image \<Rightarrow> mask"
  cvtColor_BGR2HSV :: "image \<Rightarrow> image"
  threshold_otsu :: "mask \<Rightarrow> mask"
  dilate :: "mask \<Rightarrow> kernel \<Rightarrow> mask"
  erode :: "mask \<Rightarrow> kernel \<Rightarrow> mask"
  morph_open :: "mask \<Rightarrow> kernel \<Rightarrow> mask"
  morph_close :: "mask \<Rightarrow> kernel \<Rightarrow> mask"
  findContours :: "mask \<Rightarrow> 'c list"
  contourArea :: "'c \<Rightarrow> real"
  filled :: "'c \<Rightarrow> nat \<Rightarrow> nat \<Rightarrow> bool"
  outline :: "'c \<Rightarrow> nat \<Rightarrow> nat \<Rightarrow> bool"
  medianBlur :: "image \<Rightarrow> nat \<Rightarrow> image"
  medianBlur_grey :: "mask \<Rightarrow> nat \<Rightarrow> mask"
  bilateralFilter :: "image \<Rightarrow> nat \<Rightarrow> real \<Rightarrow> real \<Rightarrow> image"
  inRange_float :: "image \<Rightarrow> real \<times> real \<times> real \<Rightarrow> real \<times> real \<times> real \<Rightarrow> mask"
  addWeighted :: "image \<Rightarrow> real \<Rightarrow> image \<Rightarrow> real \<Rightarrow> real \<Rightarrow> image"

text \<open>
  \<open>cv2.imwrite(dir + name, r)\<close>: the encoded raster becomes the contents of the file.
  OpenCV does not raise when the directory does not exist: nothing is written then.
\<close>

definition imwrite :: "'c cv2 \<Rightarrow> world \<Rightarrow> string \<Rightarrow> string \<Rightarrow> raster \<Rightarrow> world" where
  "imwrite cv w dir name r =
     (if dir \<in> set (dirs w) then w\<lparr>files := (files w)(dir @ name := Some (imencode cv name r))\<rparr>
      else w)"

text \<open>
  \<open>cv2.imread(path)\<close>: a new colour array, or None when the file is missing or cannot be
  decoded. It does not raise.
\<close>

definition imread :: "'c cv2 \<Rightarrow> world \<Rightarrow> string \<Rightarrow> world \<times> addr option" where
  "imread cv w path =
     (case files w path of
        None \<Rightarrow> (w, None)
      | Some bytes \<Rightarrow>
          (case imdecode cv bytes of
             None \<Rightarrow> (w, None)
           | Some img \<Rightarrow> (let (w', a) = alloc w img in (w', Some a))))"

section \<open>segmentation.py\<close>

subsection \<open>loadImages\<close>

definition loadImages ::
  "'c cv2 \<Rightarrow> world \<Rightarrow> string \<Rightarrow> world \<times> (addr option \<times> addr option \<times> addr option \<times> addr option \<times> addr option)" where
  "loadImages cv w pathMaps =
     (let (w1, am_withRoads) = imread cv w (pathMaps @ ''/AM_with_roads.png'');
          (w2, boundaries) = imread cv w1 (pathMaps @ ''/boundaries.png'');
          (w3, routes) = imread cv w2 (pathMaps @ ''/routes.png'');
          (w4, amBaseMap) = imread cv w3 (pathMaps @ ''/AM_Detailed.png'');
          (w5, satellite) = imread cv w4 (pathMaps @ ''/satellite.png'')
      in (w5, (am_withRoads, boundaries, routes, amBaseMap, satellite)))"

subsection \<open>privatePropertyFiltering\<close>

text \<open>
  Lines 69-86: the fill colour of one contour. Green (0,255,0) when the region of the routes
  image under the contour's mask has a pixel in the range (0,150,0)-(30,255,30), red
  (0,0,255) otherwise.
\<close>

definition ppf_colour :: "('c \<Rightarrow> nat \<Rightarrow> nat \<Rightarrow> bool) \<Rightarrow> mask \<Rightarrow> image \<Rightarrow> 'c \<Rightarrow> pyerror + pixel" where
  "ppf_colour inside boundariesGrey routesImage contour =
     (let contourMask = drawContours_filled inside contour 255 (zeros_like boundariesGrey)
      in case bitwise_and_masked routesImage contourMask of
           Inl e \<Rightarrow> Inl e
         | Inr boundariesRegion \<Rightarrow>
             (let greenMask = inRange boundariesRegion (0, 150, 0) (30, 255, 30);
                  greenMaskPixelCount = countNonZero greenMask
              in if greenMaskPixelCount > 0 then Inr (0, 255, 0) else Inr (0, 0, 255)))"

text \<open>Lines 67-89: the loop over the contours, filling each into the boundaries image.\<close>

fun ppf_loop :: "('c \<Rightarrow> nat \<Rightarrow> nat \<Rightarrow> bool) \<Rightarrow> mask \<Rightarrow> image \<Rightarrow> 'c list \<Rightarrow> image \<Rightarrow> pyerror + image" where
  "ppf_loop inside boundariesGrey routesImage [] boundariesImage = Inr boundariesImage"
| "ppf_loop inside boundariesGrey routesImage (contour # contours) boundariesImage =
     (case ppf_colour inside boundariesGrey routesImage contour of
        Inl e \<Rightarrow> Inl e
      | Inr colour \<Rightarrow>
          ppf_loop inside boundariesGrey routesImage contours
            (drawContours_filled inside contour colour boundariesImage))"

text \<open>Lines 53-64: the traced contours that pass the area test.\<close>

definition filtered_contours :: "'c cv2 \<Rightarrow> mask \<Rightarrow> 'a list list \<Rightarrow> 'c list" where
  "filtered_contours cv binary shapeOf =
     filter (\<lambda>contour. area_filter (totalPixels shapeOf) (contourArea cv contour))
       (findContours cv binary)"

text \<open>Lines 53-89: tracing, the area test and the loop.\<close>

definition ppf_fill :: "'c cv2 \<Rightarrow> mask \<Rightarrow> mask \<Rightarrow> image \<Rightarrow> image \<Rightarrow> pyerror + image" where
  "ppf_fill cv boundariesBinary boundariesGrey routesImage boundariesImage =
     ppf_loop (filled cv) boundariesGrey routesImage
       (filtered_contours cv boundariesBinary boundariesImage) boundariesImage"

text \<open>
  Lines 101-109: the mask of the public regions from the blurred boundaries image, and the
  base map with everything outside that mask recoloured red.
\<close>

definition ppf_public_mask :: "'c cv2 \<Rightarrow> image \<Rightarrow> mask" where
  "ppf_public_mask cv boundariesImage =
     (let hsv = cvtColor_BGR2HSV cv boundariesImage;
          lowerGreen = (40, 40, 40);
          upperGreen = (80, 255, 255)
      in inRange hsv lowerGreen upperGreen)"

definition ppf_recolour :: "'c cv2 \<Rightarrow> image \<Rightarrow> image \<Rightarrow> pyerror + image" where
  "ppf_recolour cv boundariesImage amBaseMap =
     (let contourMask = ppf_public_mask cv boundariesImage;
          filteredBoundaries = bitwise_not contourMask
      in setitem_where amBaseMap filteredBoundaries 255 (0, 0, 255))"

text \<open>
  The whole function. The three parameters are references to the caller's arrays; the result
  is the world after the call, with the exception raised or the reference returned. Arrays
  that are copied, changed in place or returned are in the heap; an array that is only read
  after its creation is a value.
\<close>

definition privatePropertyFiltering ::
  "'c cv2 \<Rightarrow> world \<Rightarrow> addr \<Rightarrow> addr \<Rightarrow> addr \<Rightarrow> string \<Rightarrow> world \<times> (pyerror + addr)" where
  "privatePropertyFiltering cv w amBaseMap0 boundariesImage0 routesImage0 pathResult =
     (let (w1, amBaseMap) = copy w amBaseMap0;
          (w2, boundariesImage) = copy w1 boundariesImage0;
          (w3, routesImage) = copy w2 routesImage0;
          boundariesGrey = cvtColor_BGR2GRAY cv (heap w3 boundariesImage);
          boundariesBinary = threshold_otsu cv boundariesGrey;
          w4 = imwrite cv w3 (pathResult @ ''/subresults'') ''/001_Boundary.png'' (Grey boundariesBinary);
          kernel = MorphRect 2 2;
          boundariesBinary1 = bitwise_not boundariesBinary;
          boundariesBinary2 = dilate cv boundariesBinary1 kernel;
          boundariesBinary3 = bitwise_not boundariesBinary2;
          w5 = imwrite cv w4 (pathResult @ ''/subresults'') ''/002_Boundary_dialated.png'' (Grey boundariesBinary3)
      in case ppf_fill cv boundariesBinary3 boundariesGrey (heap w5 routesImage) (heap w5 boundariesImage) of
           Inl e \<Rightarrow> (w5, Inl e)
         | Inr filledImage \<Rightarrow>
             (let w6 = store w5 boundariesImage filledImage;
                  w7 = imwrite cv w6 (pathResult @ ''/subresults'') ''/003_Boundary_Contour.png''
                         (Colour (heap w6 boundariesImage));
                  (w8, boundariesImageBlurred) = alloc w7 (medianBlur cv (heap w7 boundariesImage) 7);
                  w9 = imwrite cv w8 (pathResult @ ''/subresults'') ''/004_Boundary_Contour_Blurred.png''
                         (Colour (heap w8 boundariesImageBlurred))
              in case ppf_recolour cv (heap w9 boundariesImageBlurred) (heap w9 amBaseMap) of
                   Inl e \<Rightarrow> (w9, Inl e)
                 | Inr recoloured \<Rightarrow>
                     (let w10 = store w9 amBaseMap recoloured;
                          w11 = imwrite cv w10 (pathResult @ ''/subresults'') ''/005_Result.png''
                                  (Colour (heap w10 amBaseMap))
                      in (w11, Inr amBaseMap))))"

subsection \<open>structureFiltering\<close>

text \<open>Lines 134-148: the red mask of the pixels rendered in the building colours.\<close>

definition sf_redMask :: "'c cv2 \<Rightarrow> image \<Rightarrow> image \<Rightarrow> pyerror + image" where
  "sf_redMask cv structures redSolidMask =
     (let amWithRoadsHSV = cvtColor_BGR2HSV cv structures;
          lowerYellow = (10, 50, 50);
          upperYellow = (60, 255, 255);
          mask = inRange amWithRoadsHSV lowerYellow upperYellow
      in bitwise_and_masked redSolidMask mask)"

definition structureFiltering ::
  "'c cv2 \<Rightarrow> world \<Rightarrow> addr \<Rightarrow> addr \<Rightarrow> string \<Rightarrow> world \<times> (pyerror + addr)" where
  "structureFiltering cv w amDetailed0 structures0 pathResult =
     (let (w1, amDetailed) = copy w amDetailed0;
          (w2, structures) = copy w1 structures0;
          (w3, redSolidMask) = alloc w2 (map (map (\<lambda>_. (0, 0, 0))) (heap w2 structures));
          w4 = store w3 redSolidMask (map (map (\<lambda>_. (0, 0, 255))) (heap w3 redSolidMask))
      in case sf_redMask cv (heap w4 structures) (heap w4 redSolidMask) of
           Inl e \<Rightarrow> (w4, Inl e)
         | Inr redMask \<Rightarrow>
             (let w5 = imwrite cv w4 (pathResult @ ''/subresults'') ''/006_Structures_Redmask.png''
                         (Colour redMask)
              in case setitem_at (heap w5 amDetailed) (where_all redMask (0, 0, 255)) (0, 0, 255) of
                   Inl e \<Rightarrow> (w5, Inl e)
                 | Inr removed \<Rightarrow>
                     (let w6 = store w5 amDetailed removed;
                          w7 = imwrite cv w6 (pathResult @ ''/subresults'') ''/007_Structures_Removed.png''
                                 (Colour (heap w6 amDetailed))
                      in (w7, Inr amDetailed))))"

subsection \<open>routeAndVegFiltering\<close>

text \<open>Lines 166-185: the union of the brown, green and blue masks of the base map.\<close>

definition rv_masks :: "image \<Rightarrow> pyerror + (mask \<times> mask \<times> mask \<times> mask)" where
  "rv_masks amBaseMap =
     (let brown_lower = (200, 215, 230); brown_upper = (210, 230, 240);
          green_lower = (205, 230, 210); green_upper = (220, 255, 235);
          blue_lower = (250, 235, 215); blue_upper = (255, 245, 225);
          brown_mask = inRange amBaseMap brown_lower brown_upper;
          green_mask = inRange amBaseMap green_lower green_upper;
          blue_mask = inRange amBaseMap blue_lower blue_upper
      in case bitwise_or brown_mask green_mask of
           Inl e \<Rightarrow> Inl e
         | Inr combined_mask0 \<Rightarrow>
             (case bitwise_or combined_mask0 blue_mask of
                Inl e \<Rightarrow> Inl e
              | Inr combined_mask \<Rightarrow> Inr (blue_mask, brown_mask, green_mask, combined_mask)))"

text \<open>Lines 207-223: the binary image of the filtered base map, with thickened lines.\<close>

definition rv_binary :: "'c cv2 \<Rightarrow> image \<Rightarrow> mask \<times> mask" where
  "rv_binary cv amBaseMap =
     (let amBaseMapGrey = cvtColor_BGR2GRAY cv amBaseMap;
          amBaseMapBinary = threshold_binary amBaseMapGrey 245;
          amBaseMapBinary1 = bitwise_not amBaseMapBinary;
          kernel = MorphEllipse 2 2;
          amBaseMapBinary2 = dilate cv amBaseMapBinary1 kernel;
          amBaseMapBinary3 = bitwise_not amBaseMapBinary2
      in (amBaseMapBinary, amBaseMapBinary3))"

text \<open>Lines 241-246: the binary image of the route lines.\<close>

definition rv_routes_binary :: "'c cv2 \<Rightarrow> image \<Rightarrow> mask" where
  "rv_routes_binary cv routesImage =
     (let grey_image = cvtColor_BGR2GRAY cv routesImage;
          binaryImage = threshold_binary grey_image 240
      in bitwise_not binaryImage)"

text \<open>Lines 250-258: the green mask of the satellite image, before the erosion.\<close>

definition rv_satellite_green :: "'c cv2 \<Rightarrow> image \<Rightarrow> mask" where
  "rv_satellite_green cv satellite =
     (let satellite_hsv = cvtColor_BGR2HSV cv satellite;
          lower_green = (85 / 2, 2 * 2.5, 2 * 2.5);
          upper_green = (145 / 2, 100 * 2.5, 100 * 2.5)
      in inRange_float cv satellite_hsv lower_green upper_green)"

text \<open>
  Lines 271-310: what the loop decides for one contour. The two quotients are Python's true
  division of two pixel counts, written as exact division; a contour mask without a pixel
  makes the first division raise ZeroDivisionError.
\<close>

datatype rv_label = Road | Vegetation | Unfilled

definition rv_classify :: "('c \<Rightarrow> nat \<Rightarrow> nat \<Rightarrow> bool) \<Rightarrow> mask \<Rightarrow> mask \<Rightarrow> 'c \<Rightarrow> pyerror + rv_label" where
  "rv_classify inside binaryImage green_mask contour =
     (let contourMask = drawContours_filled inside contour 255 (zeros_like binaryImage)
      in case bitwise_and binaryImage contourMask of
           Inl e \<Rightarrow> Inl e
         | Inr region \<Rightarrow>
             (let totalPixelCount = countNonZero contourMask;
                  whitePixelCount = countNonZero region
              in if totalPixelCount = 0 then Inl ZeroDivisionError
                 else if real whitePixelCount / real totalPixelCount > 0.001 then Inr Road
                 else
                   (let contourMask2 = drawContours_filled inside contour 255 (zeros_like green_mask)
                    in case bitwise_and green_mask contourMask2 of
                         Inl e \<Rightarrow> Inl e
                       | Inr region2 \<Rightarrow>
                           (let greenPixelCount = countNonZero region2;
                                greenCoverage = real greenPixelCount / real totalPixelCount
                            in if greenCoverage > 0.10 then Inr Vegetation else Inr Unfilled))))"

text \<open>One iteration: both labels fill the contour red into the base map.\<close>

definition rv_step :: "('c \<Rightarrow> nat \<Rightarrow> nat \<Rightarrow> bool) \<Rightarrow> mask \<Rightarrow> mask \<Rightarrow> 'c \<Rightarrow> image \<Rightarrow> pyerror + image" where
  "rv_step inside binaryImage green_mask contour amBaseMap =
     (case rv_classify inside binaryImage green_mask contour of
        Inl e \<Rightarrow> Inl e
      | Inr Road \<Rightarrow> Inr (drawContours_filled inside contour (0, 0, 255) amBaseMap)
      | Inr Vegetation \<Rightarrow> Inr (drawContours_filled inside contour (0, 0, 255) amBaseMap)
      | Inr Unfilled \<Rightarrow> Inr amBaseMap)"

fun rv_loop :: "('c \<Rightarrow> nat \<Rightarrow> nat \<Rightarrow> bool) \<Rightarrow> mask \<Rightarrow> mask \<Rightarrow> 'c list \<Rightarrow> image \<Rightarrow> pyerror + image" where
  "rv_loop inside binaryImage green_mask [] amBaseMap = Inr amBaseMap"
| "rv_loop inside binaryImage green_mask (contour # contours) amBaseMap =
     (case rv_step inside binaryImage green_mask contour amBaseMap of
        Inl e \<Rightarrow> Inl e
      | Inr amBaseMap' \<Rightarrow> rv_loop inside binaryImage green_mask contours amBaseMap')"

text \<open>Lines 228-310 on the values: tracing, the area test and the loop.\<close>

definition rv_fill :: "'c cv2 \<Rightarrow> mask \<Rightarrow> mask \<Rightarrow> mask \<Rightarrow> image \<Rightarrow> pyerror + image" where
  "rv_fill cv amBaseMapBinary binaryImage green_mask amBaseMap =
     rv_loop (filled cv) binaryImage green_mask
       (filtered_contours cv amBaseMapBinary amBaseMap) amBaseMap"

text \<open>
  \<open>cv2.drawContours(dst, contours, -1, colour, 1)\<close>: the outline of every contour of the list.
\<close>

definition drawContours_outline :: "('c \<Rightarrow> nat \<Rightarrow> nat \<Rightarrow> bool) \<Rightarrow> 'c list \<Rightarrow> pixel \<Rightarrow> image \<Rightarrow> image" where
  "drawContours_outline line contours colour dst =
     imap2d (\<lambda>i j p. if list_ex (\<lambda>c. line c i j) contours then colour else p) dst"

text \<open>Lines 324-341: from the filled base map to the two reduced binary images.\<close>

definition rv_reduce :: "'c cv2 \<Rightarrow> image \<Rightarrow> mask \<times> mask \<times> mask" where
  "rv_reduce cv amBaseMap =
     (let amBaseMap_grey = cvtColor_BGR2GRAY cv amBaseMap;
          binaryImage = threshold_otsu cv amBaseMap_grey;
          binaryImage1 = bitwise_not binaryImage;
          kernel = Ones 4 4;
          binaryReducedStage1 = morph_open cv binaryImage1 kernel;
          binaryReducedStage1' = morph_close cv binaryReducedStage1 kernel;
          binaryReducedStage2 = medianBlur_grey cv binaryReducedStage1' 15
      in (binaryImage1, binaryReducedStage1', binaryReducedStage2))"

text \<open>
  The whole function. \<open>satellite\<close> is not copied, and only read. The returned array is a new
  one-channel array, returned here as a value.
\<close>

definition routeAndVegFiltering ::
  "'c cv2 \<Rightarrow> world \<Rightarrow> addr \<Rightarrow> addr \<Rightarrow> addr \<Rightarrow> string \<Rightarrow> world \<times> (pyerror + mask)" where
  "routeAndVegFiltering cv w amBaseMap0 routesImage0 satellite pathResult =
     (let (w1, amBaseMap) = copy w amBaseMap0;
          (w2, routesImage) = copy w1 routesImage0;
          sub = pathResult @ ''/subresults''
      in case rv_masks (heap w2 amBaseMap) of
           Inl e \<Rightarrow> (w2, Inl e)
         | Inr (blue_mask, brown_mask, green_mask0, combined_mask) \<Rightarrow>
     (let w3 = imwrite cv w2 sub ''/008_Filtering_Blue_Mask.png'' (Grey blue_mask);
          w4 = imwrite cv w3 sub ''/009_Filtering_Brown_Mask.png'' (Grey brown_mask);
          w5 = imwrite cv w4 sub ''/010_Filtering_Green_Mask.png'' (Grey green_mask0);
          w6 = imwrite cv w5 sub ''/011_Filtering_Combined_Mask.png'' (Grey combined_mask);
          non_matching_pixels_mask = bitwise_not combined_mask
      in case setitem_where (heap w6 amBaseMap) non_matching_pixels_mask 0 (255, 255, 255) of
           Inl e \<Rightarrow> (w6, Inl e)
         | Inr whitened \<Rightarrow>
     (let w7 = store w6 amBaseMap whitened;
          w8 = imwrite cv w7 sub ''/012_Filtering_Result.png'' (Colour (heap w7 amBaseMap));
          (w9, amBaseMapF) = alloc w8 (bilateralFilter cv (heap w8 amBaseMap) 5 255 255);
          w10 = imwrite cv w9 sub ''/013_Filtering_Noise_Reduced.png'' (Colour (heap w9 amBaseMapF));
          (amBaseMapBinary0, amBaseMapBinary) = rv_binary cv (heap w10 amBaseMapF);
          w11 = imwrite cv w10 sub ''/014_Filtering_Binary.png'' (Grey amBaseMapBinary0);
          w12 = imwrite cv w11 sub ''/015_Enhanced_Lines.png'' (Grey amBaseMapBinary);
          binaryImage = rv_routes_binary cv (heap w12 routesImage);
          w13 = imwrite cv w12 sub ''/016_Routes_Binary.png'' (Grey binaryImage);
          green_mask1 = rv_satellite_green cv (heap w13 satellite);
          w14 = imwrite cv w13 sub ''/017_1_Satellite_Green_Mask.png'' (Grey green_mask1);
          kernel = Ones 5 5;
          green_mask = erode cv green_mask1 kernel;
          w15 = imwrite cv w14 sub ''/017_2_Satellite_Green_Mask_Reduced.png'' (Grey green_mask)
      in case rv_fill cv amBaseMapBinary binaryImage green_mask (heap w15 amBaseMapF) of
           Inl e \<Rightarrow> (w15, Inl e)
         | Inr filledMap \<Rightarrow>
     (let w16 = store w15 amBaseMapF filledMap;
          (w17, amBaseMap_with_contours) = copy w16 amBaseMapF
      in if \<not> same_shape (heap w17 amBaseMap_with_contours) (heap w17 routesImage)
         then (w17, Inl CvError)
         else
     (let overlay = addWeighted cv (heap w17 amBaseMap_with_contours) (1 - 0.5) (heap w17 routesImage) 0.5 0;
          w18 = imwrite cv w17 sub ''/018_AM_Roads_Overlay.png'' (Colour overlay);
          w19 = store w18 amBaseMap_with_contours
                  (drawContours_outline (outline cv)
                     (filtered_contours cv amBaseMapBinary (heap w18 amBaseMapF)) (0, 255, 0)
                     (heap w18 amBaseMap_with_contours));
          w20 = imwrite cv w19 sub ''/019_AM_Contours.png'' (Colour (heap w19 amBaseMap_with_contours));
          (binaryImage2, binaryReducedStage1, binaryReducedStage2) = rv_reduce cv (heap w20 amBaseMapF);
          w21 = imwrite cv w20 sub ''/020_AM_Binary.png'' (Grey binaryImage2);
          w22 = imwrite cv w21 sub ''/021_AM_Reduced_1.png'' (Grey binaryReducedStage1);
          w23 = imwrite cv w22 sub ''/021_AM_Reduced_2.png'' (Grey binaryReducedStage2)
      in (w23, Inr binaryReducedStage2))))))"

subsection \<open>segmentAM and segmentAM_noStructures\<close>

text \<open>
  What a Python function can return to the notebook: None, an array, or a function object,
  given by its name.
\<close>

datatype pyvalue = NoneValue | Array raster | FunctionObject string

definition segmentAM ::
  "'c cv2 \<Rightarrow> world \<Rightarrow> addr \<Rightarrow> addr \<Rightarrow> addr \<Rightarrow> addr \<Rightarrow> addr \<Rightarrow> string \<Rightarrow> world \<times> (pyerror + pyvalue)" where
  "segmentAM cv w amBaseMap amWithRoads boundariesImage routesImage satellite pathResult =
     (case privatePropertyFiltering cv w amBaseMap boundariesImage routesImage pathResult of
        (w1, Inl e) \<Rightarrow> (w1, Inl e)
      | (w1, Inr amDetailed) \<Rightarrow>
          (case routeAndVegFiltering cv w1 amDetailed routesImage satellite pathResult of
             (w2, Inl e) \<Rightarrow> (w2, Inl e)
           | (w2, Inr amDetailed') \<Rightarrow>
               (imwrite cv w2 pathResult ''/segmented.jpg'' (Grey amDetailed'),
                Inr (FunctionObject ''segmentAM''))))"

definition segmentAM_noStructures ::
  "'c cv2 \<Rightarrow> world \<Rightarrow> addr \<Rightarrow> addr \<Rightarrow> addr \<Rightarrow> addr \<Rightarrow> addr \<Rightarrow> string \<Rightarrow> world \<times> (pyerror + pyvalue)" where
  "segmentAM_noStructures cv w amBaseMap structures boundaries routes ortofoto pathResultNoStructures =
     (case privatePropertyFiltering cv w amBaseMap boundaries routes pathResultNoStructures of
        (w1, Inl e) \<Rightarrow> (w1, Inl e)
      | (w1, Inr amDetailed) \<Rightarrow>
          (case structureFiltering cv w1 amDetailed structures pathResultNoStructures of
             (w2, Inl e) \<Rightarrow> (w2, Inl e)
           | (w2, Inr amDetailed') \<Rightarrow>
               (case routeAndVegFiltering cv w2 amDetailed' routes ortofoto pathResultNoStructures of
                  (w3, Inl e) \<Rightarrow> (w3, Inl e)
                | (w3, Inr amDetailed'') \<Rightarrow>
                    (imwrite cv w3 pathResultNoStructures ''/segmented.jpg'' (Grey amDetailed''),
                     Inr (FunctionObject ''segmentAM'')))))"

section \<open>Counting pixels, and an OpenCV for the examples\<close>



text \<open>
  What OpenCV's 8-bit BGR to HSV conversion gives for the colours of the examples: green
  (0,255,0) has hue 60, yellow (0,255,255) hue 30, red (0,0,255) hue 0, white no saturation;
  every other pixel is taken to black here.
\<close>

definition hsv_example :: "pixel \<Rightarrow> pixel" where
  "hsv_example p =
     (if p = (0, 255, 0) then (60, 255, 255)
      else if p = (0, 255, 255) then (30, 255, 255)
      else if p = (0, 0, 255) then (0, 255, 255)
      else if p = (255, 255, 255) then (0, 0, 255)
      else (0, 0, 0))"

text \<open>
  An OpenCV for the examples. A contour is a pair: the area that \<open>contourArea\<close> reports
  and the number of pixels of the first row that its fill covers. Tracing returns the given
  contours, the greyscale of a pixel is its green channel, a file that is not empty decodes
  to one row of grey pixels, a raster is encoded as its bytes, the green mask of the satellite
  image selects the hue 60, and every other filter returns its input.
\<close>

definition cv_example :: "(real \<times> nat) list \<Rightarrow> (real \<times> nat) cv2" where
  "cv_example contours =
     \<lparr>imdecode = (\<lambda>bytes. if bytes = [] then None else Some [map (\<lambda>v. (v, v, v)) bytes]),
      imencode = (\<lambda>name r. case r of Colour a \<Rightarrow> concat (map (\<lambda>(b, g, r). [b, g, r]) (concat a))
                                | Grey m \<Rightarrow> concat m),
      cvtColor_BGR2GRAY = map (map (\<lambda>(b, g, r). g)),
      cvtColor_BGR2HSV = map (map hsv_example),
      threshold_otsu = (\<lambda>m. m),
      dilate = (\<lambda>m k. m),
      erode = (\<lambda>m k. m),
      morph_open = (\<lambda>m k. m),
      morph_close = (\<lambda>m k. m),
      findContours = (\<lambda>m. contours),
      contourArea = fst,
      filled = (\<lambda>c i j. i = 0 \<and> j < snd c),
      outline = (\<lambda>c i j. False),
      medianBlur = (\<lambda>a k. a),
      medianBlur_grey = (\<lambda>m k. m),
      bilateralFilter = (\<lambda>a d sc ss. a),
      inRange_float = (\<lambda>a lo hi. map (map (\<lambda>(h, s, v). if h = 60 then 255 else 0)) a),
      addWeighted = (\<lambda>a alpha b beta gamma. a)\<rparr>"

section \<open>What a call leaves as it was\<close>

text \<open>
  The world \<open>w'\<close> extends the world \<open>w\<close>: every array that is allocated in \<open>w\<close> has in
  \<open>w'\<close> the contents it has in \<open>w\<close>, the directories are the same and nothing was printed.
\<close>

definition extends :: "world \<Rightarrow> world \<Rightarrow> bool" where
  "extends w w' =
     (next_addr w \<le> next_addr w' \<and> (\<forall>a<next_addr w. heap w' a = heap w a)
      \<and> dirs w' = dirs w \<and> stdout w' = stdout w)"

section \<open>The hue range of the specification\<close>

text \<open>
  The public mask as the specification words it: hue 20 to 40, saturation and value 40 to
  255. To be compared with \<open>ppf_public_mask\<close>, which has the bounds of the code.
\<close>

definition spec_public_mask :: "'c cv2 \<Rightarrow> image \<Rightarrow> mask" where
  "spec_public_mask cv boundariesImage =
     inRange (cvtColor_BGR2HSV cv boundariesImage) (20, 40, 40) (40, 255, 255)"

section \<open>The file of a returned raster\<close>

text \<open>
  When the call whose world and result are \<open>res\<close> returned a raster, the file \<open>name\<close> of the
  directory \<open>dir\<close> holds the encoding of that raster.
\<close>

definition holds_raster :: "'c cv2 \<Rightarrow> string \<Rightarrow> string \<Rightarrow> world \<times> (pyerror + mask) \<Rightarrow> bool" where
  "holds_raster cv dir name res =
     (case snd res of
        Inl e \<Rightarrow> True
      | Inr raster \<Rightarrow> files (fst res) (dir @ name) = Some (imencode cv name (Grey raster)))"

section \<open>The HTTP fetchers\<close>

subsection \<open>The requests library and the other collaborators\<close>








subsection \<open>AMS/API.py\<close>







subsection \<open>dataprepGoogle.py: getTiles\<close>





subsection \<open>What the specification asks of a fetcher\<close>


subsection \<open>A server for the examples\<close>


section \<open>Facts about the pixel-wise operations\<close>

lemma imap2d_length [simp]: "length (imap2d f a) = length a"
  by (simp add: imap2d_def)

lemma imap2d_row_length [simp]: "i < length a \<Longrightarrow> length (imap2d f a ! i) = length (a ! i)"
  by (simp add: imap2d_def nth_enumerate_eq)

lemma imap2d_nth [simp]:
  "i < length a \<Longrightarrow> j < length (a ! i) \<Longrightarrow> imap2d f a ! i ! j = f i j (a ! i ! j)"
  by (simp add: imap2d_def nth_enumerate_eq)

lemma imap2d_shape [simp]: "map length (imap2d f a) = map length a"
  by (rule nth_equalityI) simp_all

lemma same_shape_length: "same_shape a b \<Longrightarrow> length a = length b"
  unfolding same_shape_def by (metis length_map)

lemma same_shape_row: "same_shape a b \<Longrightarrow> i < length a \<Longrightarrow> length (a ! i) = length (b ! i)"
  unfolding same_shape_def by (metis length_map nth_map)

lemma zip2d_length: "same_shape a b \<Longrightarrow> length (zip2d f a b) = length a"
  by (simp add: zip2d_def same_shape_length)

lemma zip2d_row_length:
  "same_shape a b \<Longrightarrow> i < length a \<Longrightarrow> length (zip2d f a b ! i) = length (a ! i)"
  using same_shape_length[of a b] same_shape_row[of a b i] by (simp add: zip2d_def)

lemma zip2d_nth:
  "same_shape a b \<Longrightarrow> i < length a \<Longrightarrow> j < length (a ! i) \<Longrightarrow>
   zip2d f a b ! i ! j = f (a ! i ! j) (b ! i ! j)"
  using same_shape_length[of a b] same_shape_row[of a b i] by (simp add: zip2d_def)

lemma map2d_nth:
  "i < length a \<Longrightarrow> j < length (a ! i) \<Longrightarrow> map (map f) a ! i ! j = f (a ! i ! j)"
  by simp



lemma zeros_like_shape [simp]: "map length (zeros_like a) = map length a"
  by (simp add: zeros_like_def)







section \<open>Running the examples\<close>

text \<open>The example OpenCV, field by field, and the definitions that a run unfolds.\<close>

lemma cv_example_sel:
  "imdecode (cv_example cs) = (\<lambda>bytes. if bytes = [] then None else Some [map (\<lambda>v. (v, v, v)) bytes])"
  "imencode (cv_example cs) = (\<lambda>name r. case r of Colour a \<Rightarrow> concat (map (\<lambda>(b, g, r). [b, g, r]) (concat a))
                                | Grey m \<Rightarrow> concat m)"
  "cvtColor_BGR2GRAY (cv_example cs) = map (map (\<lambda>(b, g, r). g))"
  "cvtColor_BGR2HSV (cv_example cs) = map (map hsv_example)"
  "threshold_otsu (cv_example cs) = (\<lambda>m. m)"
  "dilate (cv_example cs) = (\<lambda>m k. m)"
  "erode (cv_example cs) = (\<lambda>m k. m)"
  "morph_open (cv_example cs) = (\<lambda>m k. m)"
  "morph_close (cv_example cs) = (\<lambda>m k. m)"
  "findContours (cv_example cs) = (\<lambda>m. cs)"
  "contourArea (cv_example cs) = fst"
  "filled (cv_example cs) = (\<lambda>c i j. i = 0 \<and> j < snd c)"
  "outline (cv_example cs) = (\<lambda>c i j. False)"
  "medianBlur (cv_example cs) = (\<lambda>a k. a)"
  "medianBlur_grey (cv_example cs) = (\<lambda>m k. m)"
  "bilateralFilter (cv_example cs) = (\<lambda>a d sc ss. a)"
  "inRange_float (cv_example cs) = (\<lambda>a lo hi. map (map (\<lambda>(h, s, v). if h = 60 then 255 else 0)) a)"
  "addWeighted (cv_example cs) = (\<lambda>a alpha b beta gamma. a)"
  by (simp_all add: cv_example_def)

lemmas run_defs =
  privatePropertyFiltering_def structureFiltering_def routeAndVegFiltering_def
  copy_def alloc_def store_def imwrite_def Let_def cv_example_sel
  ppf_fill_def rv_fill_def filtered_contours_def ppf_recolour_def ppf_public_mask_def
  sf_redMask_def rv_masks_def rv_binary_def rv_routes_binary_def rv_satellite_green_def
  rv_reduce_def drawContours_outline_def imap2d_def inRange_def inRange_px_def hsv_example_def
  bitwise_not_def bitwise_or_def bitwise_and_masked_def threshold_binary_def
  setitem_where_def setitem_at_def where_all_def same_shape_def zip2d_def

section \<open>Properties of compare\<close>

lemma gb_setitem2:
  assumes "gb_map rm" "v = (0,255,0) \<or> v = (0,0,0)"
  shows "gb_map (setitem2 rm i j v)"
proof (cases "i < length rm")
  case False
  then show ?thesis using assms by (simp add: setitem2_def list_update_beyond)
next
  case True
  have row: "\<forall>p\<in>set ((rm ! i)[j := v]). p = (0,255,0) \<or> p = (0,0,0)"
  proof
    fix p assume "p \<in> set ((rm ! i)[j := v])"
    then have "p = v \<or> p \<in> set (rm ! i)"
      using set_update_subset_insert[of "rm ! i" j v] by auto
    then show "p = (0,255,0) \<or> p = (0,0,0)"
      using assms True by (auto simp: gb_map_def)
  qed
  show ?thesis
    unfolding gb_map_def setitem2_def
  proof
    fix r assume "r \<in> set (rm[i := (rm ! i)[j := v]])"
    then have "r = (rm ! i)[j := v] \<or> r \<in> set rm"
      using set_update_subset_insert[of rm i "(rm ! i)[j := v]"] by auto
    then show "\<forall>p\<in>set r. p = (0,255,0) \<or> p = (0,0,0)"
      using row assms(1) by (auto simp: gb_map_def)
  qed
qed

lemma compare_pixel_same:
  assumes "i < length m" "j < length (m ! i)"
  shows "\<exists>st'. compare_pixel m m i j st = Inr st' \<and> fp st' = fp st \<and> fn st' = fn st
     \<and> tp st' = tp st + (if m ! i ! j = 0 then 1 else 0)
     \<and> tn st' = tn st + (if m ! i ! j = 0 then 0 else 1)
     \<and> (gb_map (resultMap st) \<longrightarrow> gb_map (resultMap st'))"
  using assms by (simp add: compare_pixel_def getitem2_def gb_setitem2 word_gt_0)

lemma compare_cols_same:
  assumes "i < length m" "\<forall>j\<in>set js. j < length (m ! i)"
  shows "\<exists>st'. compare_cols m m i js st = Inr st' \<and> fp st' = fp st \<and> fn st' = fn st
     \<and> tp st' = tp st + zero_count m i js
     \<and> tp st' + tn st' = tp st + tn st + length js
     \<and> (gb_map (resultMap st) \<longrightarrow> gb_map (resultMap st'))"
  using assms(2)
proof (induction js arbitrary: st)
  case Nil
  show ?case by (simp add: zero_count_def)
next
  case (Cons j js)
  from Cons.prems have j: "j < length (m ! i)" by simp
  from compare_pixel_same[OF assms(1) j, of st] obtain s1 where
    s1: "compare_pixel m m i j st = Inr s1" "fp s1 = fp st" "fn s1 = fn st"
        "tp s1 = tp st + (if m ! i ! j = 0 then 1 else 0)"
        "tn s1 = tn st + (if m ! i ! j = 0 then 0 else 1)"
        "gb_map (resultMap st) \<longrightarrow> gb_map (resultMap s1)"
    by blast
  from Cons.IH[of s1] Cons.prems obtain s2 where
    s2: "compare_cols m m i js s1 = Inr s2" "fp s2 = fp s1" "fn s2 = fn s1"
        "tp s2 = tp s1 + zero_count m i js"
        "tp s2 + tn s2 = tp s1 + tn s1 + length js"
        "gb_map (resultMap s1) \<longrightarrow> gb_map (resultMap s2)"
    by auto
  show ?case using s1 s2 by (simp add: zero_count_def)
qed

lemma compare_rows_same:
  assumes "\<forall>i\<in>set is. i < length m \<and> width \<le> length (m ! i)"
  shows "\<exists>st'. compare_rows m m width is st = Inr st' \<and> fp st' = fp st \<and> fn st' = fn st
     \<and> tp st' = tp st + sum_list (map (\<lambda>i. zero_count m i [0..<width]) is)
     \<and> tp st' + tn st' = tp st + tn st + length is * width
     \<and> (gb_map (resultMap st) \<longrightarrow> gb_map (resultMap st'))"
  using assms
proof (induction "is" arbitrary: st)
  case Nil
  show ?case by simp
next
  case (Cons i "is")
  from Cons.prems have i: "i < length m" and w: "\<forall>j\<in>set [0..<width]. j < length (m ! i)" by auto
  from compare_cols_same[OF i w, of st] obtain s1 where
    s1: "compare_cols m m i [0..<width] st = Inr s1" "fp s1 = fp st" "fn s1 = fn st"
        "tp s1 = tp st + zero_count m i [0..<width]"
        "tp s1 + tn s1 = tp st + tn st + length [0..<width]"
        "gb_map (resultMap st) \<longrightarrow> gb_map (resultMap s1)"
    by blast
  from Cons.IH[of s1] Cons.prems obtain s2 where
    s2: "compare_rows m m width is s1 = Inr s2" "fp s2 = fp s1" "fn s2 = fn s1"
        "tp s2 = tp s1 + sum_list (map (\<lambda>i. zero_count m i [0..<width]) is)"
        "tp s2 + tn s2 = tp s1 + tn s1 + length is * width"
        "gb_map (resultMap s1) \<longrightarrow> gb_map (resultMap s2)"
    by auto
  show ?case using s1 s2 by simp
qed

lemma rectangular_nth: "rectangular m \<Longrightarrow> i < length m \<Longrightarrow> length (m ! i) = ncols m"
  by (simp add: rectangular_def list_all_length)

lemma sum_list_pos_iff: "0 < sum_list (map f xs) \<longleftrightarrow> (\<exists>x\<in>set xs. 0 < (f x :: nat))"
  by (induction xs) auto

lemma zero_count_pos:
  assumes "rectangular m"
  shows "0 < sum_list (map (\<lambda>i. zero_count m i [0..<ncols m]) [0..<length m])
         \<longleftrightarrow> (\<exists>row\<in>set m. 0 \<in> set row)"
proof
  assume "0 < sum_list (map (\<lambda>i. zero_count m i [0..<ncols m]) [0..<length m])"
  then obtain i where i: "i < length m" "0 < zero_count m i [0..<ncols m]"
    by (auto simp: sum_list_pos_iff)
  then obtain j where j: "j < ncols m" "m ! i ! j = 0"
    by (auto simp: zero_count_def filter_empty_conv)
  from i(1) j(1) assms have "m ! i ! j \<in> set (m ! i)" by (simp add: rectangular_nth)
  with i(1) j(2) show "\<exists>row\<in>set m. 0 \<in> set row"
    using nth_mem[of i m] by auto
next
  assume "\<exists>row\<in>set m. 0 \<in> set row"
  then obtain i j where ij: "i < length m" "j < length (m ! i)" "m ! i ! j = 0"
    by (metis in_set_conv_nth)
  with assms have "j \<in> set (filter (\<lambda>j. m ! i ! j = 0) [0..<ncols m])"
    by (simp add: rectangular_nth)
  then have "0 < zero_count m i [0..<ncols m]"
    unfolding zero_count_def by (rule length_pos_if_in_set)
  with ij(1) show "0 < sum_list (map (\<lambda>i. zero_count m i [0..<ncols m]) [0..<length m])"
    by (auto simp: sum_list_pos_iff)
qed

text \<open>
  C6. For two identical masks \<open>compare\<close> returns, counts no false positive and no false
  negative, and every pixel of the result map is green (0,255,0) or black (0,0,0). The
  accuracy is 1 for every mask that has a pixel. Precision and recall are 1 when the mask
  has at least one black (zero) pixel; when it has none, the guards
  \<open>if (tp + fp) != 0 else 0\<close> and \<open>if (tp + fn) != 0 else 0\<close> make them 0.
\<close>

theorem compare_identical:
  assumes "rectangular m"
  shows "\<exists>r. compare m m = Inr r \<and> res_fp r = 0 \<and> res_fn r = 0
     \<and> (\<forall>row\<in>set (res_map r). \<forall>p\<in>set row. p = (0, 255, 0) \<or> p = (0, 0, 0))
     \<and> accuracy r = (if length m * ncols m = 0 then 0 else 1)
     \<and> precision r = (if \<exists>row\<in>set m. 0 \<in> set row then 1 else 0)
     \<and> recall r = (if \<exists>row\<in>set m. 0 \<in> set row then 1 else 0)"
proof -
  let ?init = "\<lparr>resultMap = replicate (length m) (replicate (ncols m) (0, 0, 0)),
                  tp = 0, fp = 0, fn = 0, tn = 0\<rparr>"
  have rng: "\<forall>i\<in>set [0..<length m]. i < length m \<and> ncols m \<le> length (m ! i)"
    using assms by (simp add: rectangular_nth)
  have gb0: "gb_map (resultMap ?init)" by (simp add: gb_map_def)
  from compare_rows_same[OF rng, of ?init] gb0 obtain st where
    st: "compare_rows m m (ncols m) [0..<length m] ?init = Inr st" "fp st = 0" "fn st = 0"
        "tp st = sum_list (map (\<lambda>i. zero_count m i [0..<ncols m]) [0..<length m])"
        "gb_map (resultMap st)"
    and total: "tp st + tn st = length m * ncols m"
    by auto
  have pos: "0 < tp st \<longleftrightarrow> (\<exists>row\<in>set m. 0 \<in> set row)"
    using zero_count_pos[OF assms] st(4) by simp
  have acc: "(if tp st + fp st + tn st + fn st \<noteq> 0
              then real (tp st + tn st) / real (tp st + tn st + fp st + fn st) else 0)
           = (if length m * ncols m = 0 then 0 else 1)"
    using st(2,3) total by (simp add: add.commute)
  have prec: "(if tp st + fp st \<noteq> 0 then real (tp st) / real (tp st + fp st) else 0)
           = (if \<exists>row\<in>set m. 0 \<in> set row then 1 else 0)"
    using st(2) pos by auto
  have rec: "(if tp st + fn st \<noteq> 0 then real (tp st) / real (tp st + fn st) else 0)
           = (if \<exists>row\<in>set m. 0 \<in> set row then 1 else 0)"
    using st(3) pos by auto
  have "compare m m = Inr \<lparr>res_map = resultMap st,
                  res_tp = tp st, res_fp = fp st, res_fn = fn st, res_tn = tn st,
                  precision = (if \<exists>row\<in>set m. 0 \<in> set row then 1 else 0),
                  recall = (if \<exists>row\<in>set m. 0 \<in> set row then 1 else 0),
                  accuracy = (if length m * ncols m = 0 then 0 else 1)\<rparr>"
    unfolding compare_def Let_def st(1) sum.case by (simp only: acc prec rec)
  then show ?thesis
    using st(2,3,5) by (simp add: gb_map_def)
qed

theorem compare_identical_witness:
  "\<exists>r. compare [[0, 255], [255, 0]] [[0, 255], [255, 0]] = Inr r
        \<and> precision r = 1 \<and> recall r = 1 \<and> accuracy r = 1 \<and> res_fp r = 0 \<and> res_fn r = 0"
  using compare_identical [of "[[0, 255], [255, 0]]"]
  by (auto simp: rectangular_def ncols_def)

text \<open>
  Two identical one-pixel white masks: nothing is counted as true positive, so precision and
  recall are 0, not 1.
\<close>

theorem compare_identical_white_counterexample:
  "compare [[255]] [[255]] =
     Inr \<lparr>res_map = [[(0, 0, 0)]], res_tp = 0, res_fp = 0, res_fn = 0, res_tn = 1,
          precision = 0, recall = 0, accuracy = 1\<rparr>"
  by (simp add: compare_def ncols_def compare_pixel_def getitem2_def setitem2_def)

section \<open>Properties of privatePropertyFiltering and routeAndVegFiltering\<close>

subsection \<open>Filling a contour\<close>

lemma drawContours_filled_length [simp]:
  "length (drawContours_filled inside c col a) = length a"
  by (simp add: drawContours_filled_def)

lemma drawContours_filled_row_length [simp]:
  "i < length a \<Longrightarrow> length (drawContours_filled inside c col a ! i) = length (a ! i)"
  by (simp add: drawContours_filled_def)

lemma drawContours_filled_nth [simp]:
  "i < length a \<Longrightarrow> j < length (a ! i) \<Longrightarrow>
   drawContours_filled inside c col a ! i ! j = (if inside c i j then col else a ! i ! j)"
  by (simp add: drawContours_filled_def)

lemma drawContours_filled_shape [simp]:
  "map length (drawContours_filled inside c col a) = map length a"
  by (simp add: drawContours_filled_def)

subsection \<open>The classification of privatePropertyFiltering\<close>




subsection \<open>The area test\<close>

lemma ppf_loop_untouched:
  assumes "ppf_loop inside boundariesGrey routesImage contours img = Inr out"
    and "i < length img" "j < length (img ! i)"
    and "\<forall>c\<in>set contours. \<not> inside c i j"
  shows "out ! i ! j = img ! i ! j"
  using assms
proof (induction contours arbitrary: img)
  case Nil
  then show ?case by simp
next
  case (Cons c cs)
  from Cons.prems(1) obtain colour where
    loop: "ppf_loop inside boundariesGrey routesImage cs (drawContours_filled inside c colour img) = Inr out"
    by (auto split: sum.splits)
  have "out ! i ! j = drawContours_filled inside c colour img ! i ! j"
    using Cons.prems by (intro Cons.IH[OF loop]) simp_all
  then show ?case using Cons.prems by simp
qed

lemma rv_loop_untouched:
  assumes "rv_loop inside binaryImage green_mask contours img = Inr out"
    and "i < length img" "j < length (img ! i)"
    and "\<forall>c\<in>set contours. \<not> inside c i j"
  shows "out ! i ! j = img ! i ! j"
  using assms
proof (induction contours arbitrary: img)
  case Nil
  then show ?case by simp
next
  case (Cons c cs)
  from Cons.prems(1) obtain img' where
    step: "rv_step inside binaryImage green_mask c img = Inr img'"
    and loop: "rv_loop inside binaryImage green_mask cs img' = Inr out"
    by (auto split: sum.splits)
  have img': "img' = img \<or> img' = drawContours_filled inside c (0, 0, 255) img"
    using step by (auto simp: rv_step_def split: sum.splits rv_label.splits)
  then have len: "i < length img'" "j < length (img' ! i)" "img' ! i ! j = img ! i ! j"
    using Cons.prems by auto
  have "out ! i ! j = img' ! i ! j"
    using Cons.prems len by (intro Cons.IH[OF loop]) simp_all
  then show ?case using len by simp
qed

text \<open>
  C2. In both filters the contours that are classified are those of area above 100 and below
  half the number of pixels; no fill is drawn for any other contour. A pixel that only
  contours of area at most 100 or at least half the number of pixels cover has, in the raster
  that the loop fills, the same value after the loop as before it. That raster is the copy of
  the boundaries image in \<open>privatePropertyFiltering\<close> and the filtered base map in
  \<open>routeAndVegFiltering\<close>. The base map of \<open>privatePropertyFiltering\<close> is not that raster:
  it is recoloured after the loop, also under the contours that were left out.
\<close>

theorem area_filter_excludes:
  assumes "i < length img" and "j < length (img ! i)"
    and "\<forall>c\<in>set (findContours cv binary). filled cv c i j \<longrightarrow>
           contourArea cv c \<le> 100 \<or> real (totalPixels img) / 2 \<le> contourArea cv c"
  shows "set (filtered_contours cv binary img) =
           {c \<in> set (findContours cv binary).
              100 < contourArea cv c \<and> contourArea cv c < real (totalPixels img) / 2}
       \<and> (\<forall>out. ppf_fill cv binary boundariesGrey routesImage img = Inr out \<longrightarrow>
              out ! i ! j = img ! i ! j)
       \<and> (\<forall>out. rv_fill cv binary binaryImage green_mask img = Inr out \<longrightarrow>
              out ! i ! j = img ! i ! j)"
proof -
  have flt: "set (filtered_contours cv binary img) =
           {c \<in> set (findContours cv binary).
              100 < contourArea cv c \<and> contourArea cv c < real (totalPixels img) / 2}"
    by (auto simp: filtered_contours_def area_filter_def)
  have none: "\<forall>c\<in>set (filtered_contours cv binary img). \<not> filled cv c i j"
    using assms(3) unfolding flt by fastforce
  have p: "out ! i ! j = img ! i ! j"
    if "ppf_fill cv binary boundariesGrey routesImage img = Inr out" for out
    using that assms(1,2) none unfolding ppf_fill_def by (rule ppf_loop_untouched)
  have r: "out ! i ! j = img ! i ! j"
    if "rv_fill cv binary binaryImage green_mask img = Inr out" for out
    using that assms(1,2) none unfolding rv_fill_def by (rule rv_loop_untouched)
  show ?thesis using flt p r by blast
qed

theorem area_filter_excludes_witness:
  "ppf_fill (cv_example [(100, 2), (1000, 2)]) [] [[0, 0]] [[(0, 200, 0), (0, 0, 0)]] [[(1, 2, 3), (4, 5, 6)]]
     = Inr [[(1, 2, 3), (4, 5, 6)]]
   \<and> rv_fill (cv_example [(100, 2), (1000, 2)]) [] [[255, 0]] [[255, 255]] [[(1, 2, 3), (4, 5, 6)]]
     = Inr [[(1, 2, 3), (4, 5, 6)]]"
proof -
  let ?cv = "cv_example [(100, 2), (1000, 2)]"
  let ?img = "[[(1, 2, 3), (4, 5, 6)]] :: image"
  have fc: "filtered_contours ?cv [] ?img = []"
    by (simp add: filtered_contours_def cv_example_def area_filter_def totalPixels_def ncols_def)
  have "\<forall>c\<in>set (findContours ?cv []). filled ?cv c 0 0 \<longrightarrow>
           contourArea ?cv c \<le> 100 \<or> real (totalPixels ?img) / 2 \<le> contourArea ?cv c"
    by (simp add: cv_example_def totalPixels_def ncols_def)
  from area_filter_excludes[OF _ _ this, of "[[0, 0]]" "[[(0, 200, 0), (0, 0, 0)]]" "[[255, 0]]" "[[255, 255]]"]
  show ?thesis
    unfolding ppf_fill_def rv_fill_def fc by simp
qed

text \<open>
  A base map of two pixels under two contours that both fail the area test, with a white
  boundaries image: no contour is classified, and \<open>privatePropertyFiltering\<close> returns the
  copy of the base map (the array 3) with both pixels red. The caller's array 0 is as it was.
\<close>

theorem area_filter_base_map_counterexample:
  "filtered_contours (cv_example [(100, 2), (1000, 2)]) [[255, 255]]
      [[(255 :: byte, 255 :: byte, 255 :: byte), (255, 255, 255)]] = []
   \<and> (case privatePropertyFiltering (cv_example [(100, 2), (1000, 2)])
      \<lparr>heap = (\<lambda>a. [[(255, 255, 255), (255, 255, 255)]])(0 := [[(1, 2, 3), (4, 5, 6)]]),
       next_addr = 3, files = (\<lambda>p. None), dirs = [], stdout = []\<rparr> 0 1 2 ''out'' of
     (w', r) \<Rightarrow> r = Inr 3 \<and> heap w' 0 = [[(1, 2, 3), (4, 5, 6)]]
        \<and> heap w' 3 = [[(0, 0, 255), (0, 0, 255)]])"
  by (simp add: run_defs area_filter_def totalPixels_def ncols_def
      cong: let_weak_cong prod.case_cong_weak)

subsection \<open>The classification of routeAndVegFiltering\<close>


lemma byte_and_255 [simp]: "(v :: byte) AND 255 = v"
proof -
  have "(255 :: byte) = - 1" by simp
  then show ?thesis by (simp only: and.right_neutral)
qed









section \<open>The arrays of the caller\<close>

text \<open>
  One rule for every form of statement of the filters: when the world before the statement
  extends \<open>w0\<close>, and an array that is changed in place was allocated after \<open>w0\<close>, the world
  after the rest of the function extends \<open>w0\<close>.
\<close>

lemma extends_refl: "extends w w"
  by (simp add: extends_def)

lemma extends_trans: "extends w w' \<Longrightarrow> extends w' w'' \<Longrightarrow> extends w w''"
  by (simp add: extends_def)

lemma ext_ret: "extends w0 w \<Longrightarrow> extends w0 (fst (w, r))"
  by simp

lemma ext_imwrite:
  "extends w0 w \<Longrightarrow> (\<And>w'. extends w0 w' \<Longrightarrow> extends w0 (fst (f w'))) \<Longrightarrow>
   extends w0 (fst (Let (imwrite cv w d nm r) f))"
  by (simp add: extends_def imwrite_def)

lemma ext_alloc:
  "extends w0 w \<Longrightarrow>
   (\<And>w' a'. extends w0 w' \<Longrightarrow> next_addr w0 \<le> a' \<Longrightarrow> extends w0 (fst (f w' a'))) \<Longrightarrow>
   extends w0 (fst (Let (alloc w img) (case_prod f)))"
  by (simp add: extends_def alloc_def)

lemma ext_copy:
  "extends w0 w \<Longrightarrow>
   (\<And>w' a'. extends w0 w' \<Longrightarrow> next_addr w0 \<le> a' \<Longrightarrow> extends w0 (fst (f w' a'))) \<Longrightarrow>
   extends w0 (fst (Let (copy w a) (case_prod f)))"
  unfolding copy_def by (rule ext_alloc)

lemma ext_store:
  "extends w0 w \<Longrightarrow> next_addr w0 \<le> a \<Longrightarrow>
   (\<And>w'. extends w0 w' \<Longrightarrow> extends w0 (fst (f w'))) \<Longrightarrow>
   extends w0 (fst (Let (store w a img) f))"
  by (simp add: extends_def store_def)

lemma ext_let: "(\<And>x. extends w0 (fst (f x))) \<Longrightarrow> extends w0 (fst (Let s f))"
  by simp

lemma ext_case_prod: "(\<And>x y. extends w0 (fst (f x y))) \<Longrightarrow> extends w0 (fst (case_prod f p))"
  by (cases p) simp

lemma ext_case_sum:
  "(\<And>e. extends w0 (fst (f e))) \<Longrightarrow> (\<And>y. extends w0 (fst (g y))) \<Longrightarrow>
   extends w0 (fst (case_sum f g s))"
  by (cases s) simp_all

lemma ext_if:
  "extends w0 (fst x) \<Longrightarrow> extends w0 (fst y) \<Longrightarrow> extends w0 (fst (if c then x else y))"
  by simp

lemma ppf_extends:
  "extends w0 w \<Longrightarrow>
   extends w0 (fst (privatePropertyFiltering cv w amBaseMap boundariesImage routesImage pathResult))"
  unfolding privatePropertyFiltering_def
  by ((rule ext_imwrite, assumption) | (rule ext_copy, assumption) | (rule ext_alloc, assumption)
      | (rule ext_store, assumption, assumption) | rule ext_let | rule ext_case_sum
      | rule ext_case_prod | rule ext_if | (rule ext_ret, assumption))+

lemma sf_extends:
  "extends w0 w \<Longrightarrow>
   extends w0 (fst (structureFiltering cv w amDetailed structures pathResult))"
  unfolding structureFiltering_def
  by ((rule ext_imwrite, assumption) | (rule ext_copy, assumption) | (rule ext_alloc, assumption)
      | (rule ext_store, assumption, assumption) | rule ext_let | rule ext_case_sum
      | rule ext_case_prod | rule ext_if | (rule ext_ret, assumption))+

lemma rv_extends:
  "extends w0 w \<Longrightarrow>
   extends w0 (fst (routeAndVegFiltering cv w amBaseMap routesImage satellite pathResult))"
  unfolding routeAndVegFiltering_def
  by ((rule ext_imwrite, assumption) | (rule ext_copy, assumption) | (rule ext_alloc, assumption)
      | (rule ext_store, assumption, assumption) | rule ext_let | rule ext_case_sum
      | rule ext_case_prod | rule ext_if | (rule ext_ret, assumption))+

text \<open>
  C9. After a call of \<open>privatePropertyFiltering\<close>, \<open>structureFiltering\<close> or
  \<open>routeAndVegFiltering\<close>, whether it returns or raises, every array that was allocated before
  the call, so every array the caller passes in, has the contents it had before the call. The
  in-place operations of the filters go to the copies and the new arrays they make; the
  satellite image is not copied and only read.
\<close>

theorem filters_leave_arrays:
  "(\<forall>a<next_addr w.
      heap (fst (privatePropertyFiltering cv w amBaseMap boundariesImage routesImage pathResult)) a = heap w a)
   \<and> (\<forall>a<next_addr w.
      heap (fst (structureFiltering cv w amDetailed structures pathResult)) a = heap w a)
   \<and> (\<forall>a<next_addr w.
      heap (fst (routeAndVegFiltering cv w amDetailed routesImage satellite pathResult)) a = heap w a)"
  using ppf_extends[OF extends_refl, of w cv amBaseMap boundariesImage routesImage pathResult]
    sf_extends[OF extends_refl, of w cv amDetailed structures pathResult]
    rv_extends[OF extends_refl, of w cv amDetailed routesImage satellite pathResult]
  by (simp add: extends_def)

theorem filters_leave_arrays_witness:
  "heap (fst (privatePropertyFiltering (cv_example [])
       \<lparr>heap = (\<lambda>a. [[(255, 255, 255)]]), next_addr = 3, files = (\<lambda>p. None), dirs = [], stdout = []\<rparr>
       0 1 2 ''out'')) 0 = [[(255, 255, 255)]]
   \<and> heap (fst (structureFiltering (cv_example [])
       \<lparr>heap = (\<lambda>a. [[(255, 255, 255)]]), next_addr = 3, files = (\<lambda>p. None), dirs = [], stdout = []\<rparr>
       0 1 ''out'')) 1 = [[(255, 255, 255)]]
   \<and> heap (fst (routeAndVegFiltering (cv_example [])
       \<lparr>heap = (\<lambda>a. [[(255, 255, 255)]]), next_addr = 3, files = (\<lambda>p. None), dirs = [], stdout = []\<rparr>
       0 2 1 ''out'')) 2 = [[(255, 255, 255)]]"
  using filters_leave_arrays[where
       w = "\<lparr>heap = (\<lambda>a. [[(255, 255, 255)]]), next_addr = 3, files = (\<lambda>p. None), dirs = [], stdout = []\<rparr>"
       and cv = "cv_example []" and amBaseMap = 0 and boundariesImage = 1 and routesImage = 2
       and pathResult = "''out''" and amDetailed = 0 and structures = 1 and satellite = 1]
  by simp

section \<open>The pipeline\<close>

lemma dirs_imwrite [simp]: "dirs (imwrite cv w d nm r) = dirs w"
  by (simp add: imwrite_def)

lemma files_imwrite:
  "d \<in> set (dirs w) \<Longrightarrow> files (imwrite cv w d nm r) (d @ nm) = Some (imencode cv nm r)"
  by (simp add: imwrite_def)

lemma files_imwrite_other:
  "d @ nm \<noteq> path \<Longrightarrow> files (imwrite cv w d nm r) path = files w path"
  by (simp add: imwrite_def)

lemma extends_dirs: "extends w w' \<Longrightarrow> dirs w' = dirs w"
  by (simp add: extends_def)

subsection \<open>The last file of routeAndVegFiltering\<close>

text \<open>
  One rule for every form of statement of \<open>routeAndVegFiltering\<close>, as for the arrays of the
  caller: the directories stay as they are, and the last statement before the return writes
  the returned raster.
\<close>

lemma hr_err: "holds_raster cv dir nm (w, Inl e)"
  by (simp add: holds_raster_def)

lemma hr_final:
  "d = dir \<Longrightarrow> dirs w = ds \<Longrightarrow> dir \<in> set ds \<Longrightarrow>
   holds_raster cv dir nm (Let (imwrite cv w d nm (Grey r)) (\<lambda>w'. (w', Inr r)))"
  by (simp add: holds_raster_def imwrite_def)

lemma hr_imwrite:
  "dirs w = ds \<Longrightarrow> (\<And>w'. dirs w' = ds \<Longrightarrow> holds_raster cv dir nm (f w')) \<Longrightarrow>
   holds_raster cv dir nm (Let (imwrite cv w d' nm' r) f)"
  by simp

lemma hr_alloc:
  "dirs w = ds \<Longrightarrow> (\<And>w' a'. dirs w' = ds \<Longrightarrow> holds_raster cv dir nm (f w' a')) \<Longrightarrow>
   holds_raster cv dir nm (Let (alloc w img) (case_prod f))"
  by (simp add: alloc_def)

lemma hr_copy:
  "dirs w = ds \<Longrightarrow> (\<And>w' a'. dirs w' = ds \<Longrightarrow> holds_raster cv dir nm (f w' a')) \<Longrightarrow>
   holds_raster cv dir nm (Let (copy w a) (case_prod f))"
  unfolding copy_def by (rule hr_alloc)

lemma hr_store:
  "dirs w = ds \<Longrightarrow> (\<And>w'. dirs w' = ds \<Longrightarrow> holds_raster cv dir nm (f w')) \<Longrightarrow>
   holds_raster cv dir nm (Let (store w a img) f)"
  by (simp add: store_def)

lemma hr_let: "(\<And>x. x = s \<Longrightarrow> holds_raster cv dir nm (f x)) \<Longrightarrow> holds_raster cv dir nm (Let s f)"
  by simp

lemma hr_case_prod:
  "(\<And>x y. holds_raster cv dir nm (f x y)) \<Longrightarrow> holds_raster cv dir nm (case_prod f p)"
  by (cases p) simp

lemma hr_case_sum:
  "(\<And>e. holds_raster cv dir nm (f e)) \<Longrightarrow> (\<And>y. holds_raster cv dir nm (g y)) \<Longrightarrow>
   holds_raster cv dir nm (case_sum f g s)"
  by (cases s) simp_all

lemma hr_if:
  "holds_raster cv dir nm x \<Longrightarrow> holds_raster cv dir nm y \<Longrightarrow>
   holds_raster cv dir nm (if c then x else y)"
  by simp

lemma rv_holds_raster:
  assumes "dirs w = ds" "pathResult @ ''/subresults'' \<in> set ds"
  shows "holds_raster cv (pathResult @ ''/subresults'') ''/021_AM_Reduced_2.png''
           (routeAndVegFiltering cv w amBaseMap routesImage satellite pathResult)"
  using assms unfolding routeAndVegFiltering_def
  by - ((rule hr_final, assumption, assumption, assumption) | (rule hr_imwrite, assumption)
      | (rule hr_copy, assumption) | (rule hr_alloc, assumption) | (rule hr_store, assumption)
      | rule hr_let | rule hr_case_sum | rule hr_case_prod | rule hr_if | rule hr_err)+

lemma rv_writes_reduced:
  assumes "routeAndVegFiltering cv w amBaseMap routesImage satellite pathResult = (w', Inr raster)"
    and "pathResult @ ''/subresults'' \<in> set (dirs w)"
  shows "files w' (pathResult @ ''/subresults/021_AM_Reduced_2.png'')
           = Some (imencode cv ''/021_AM_Reduced_2.png'' (Grey raster))"
  using rv_holds_raster[OF refl assms(2), of cv amBaseMap routesImage satellite] assms(1)
  by (simp add: holds_raster_def)

subsection \<open>segmentAM and segmentAM_noStructures\<close>

text \<open>Three runs with the example OpenCV, on one-pixel white images; the third has a base map of two pixels.\<close>

lemma segmentAM_example_run:
  "case segmentAM (cv_example [])
      \<lparr>heap = (\<lambda>a. [[(255, 255, 255)]]), next_addr = 5, files = (\<lambda>p. None),
       dirs = [''out'', ''out/subresults''], stdout = []\<rparr> 0 1 2 3 4 ''out'' of
     (w', r) \<Rightarrow> r = Inr (FunctionObject ''segmentAM'')
        \<and> files w' ''out/segmented.jpg'' = Some [255]
        \<and> files w' ''out/subresults/021_AM_Reduced_2.png'' = Some [255]"
  by (simp add: segmentAM_def run_defs cong: let_weak_cong prod.case_cong_weak)

lemma segmentAM_noStructures_example_run:
  "case segmentAM_noStructures (cv_example [])
      \<lparr>heap = (\<lambda>a. [[(255, 255, 255)]]), next_addr = 5, files = (\<lambda>p. None),
       dirs = [''out'', ''out/subresults''], stdout = []\<rparr> 0 1 2 3 4 ''out'' of
     (w', r) \<Rightarrow> r = Inr (FunctionObject ''segmentAM'')
        \<and> files w' ''out/segmented.jpg'' = Some [255]
        \<and> files w' ''out/subresults/021_AM_Reduced_2.png'' = Some [255]"
  by (simp add: segmentAM_noStructures_def run_defs cong: let_weak_cong prod.case_cong_weak)

lemma segmentAM_example_raise:
  "snd (segmentAM (cv_example [])
      \<lparr>heap = (\<lambda>a. [[(255, 255, 255)]])(0 := [[(255, 255, 255), (255, 255, 255)]]), next_addr = 5,
       files = (\<lambda>p. None), dirs = [''out'', ''out/subresults''], stdout = []\<rparr> 0 1 2 3 4 ''out'')
     = Inl IndexError"
  by (simp add: segmentAM_def run_defs cong: let_weak_cong prod.case_cong_weak)

text \<open>
  C10. A call of \<open>segmentAM\<close> or \<open>segmentAM_noStructures\<close> can raise. Whenever it returns, the
  value returned is the function object \<open>segmentAM\<close>, not the raster. The raster that
  \<open>routeAndVegFiltering\<close> returned is passed to \<open>cv2.imwrite\<close> for \<open>segmented.jpg\<close>, and
  when the result directory exists that file holds its encoding after the call. It is not the
  only file that does: when the directory of the subresults exists,
  \<open>subresults/021_AM_Reduced_2.png\<close> holds the encoding of the same raster.
\<close>

theorem segmentAM_returns_function:
  "(\<forall>w' v. segmentAM cv w amBaseMap amWithRoads boundariesImage routesImage satellite pathResult
              = (w', Inr v) \<longrightarrow>
      v = FunctionObject ''segmentAM''
      \<and> (\<exists>w1 amDetailed w2 raster.
            privatePropertyFiltering cv w amBaseMap boundariesImage routesImage pathResult
              = (w1, Inr amDetailed)
            \<and> routeAndVegFiltering cv w1 amDetailed routesImage satellite pathResult = (w2, Inr raster)
            \<and> v \<noteq> Array (Grey raster)
            \<and> w' = imwrite cv w2 pathResult ''/segmented.jpg'' (Grey raster)
            \<and> (pathResult \<in> set (dirs w) \<longrightarrow>
                 files w' (pathResult @ ''/segmented.jpg'')
                   = Some (imencode cv ''/segmented.jpg'' (Grey raster)))
            \<and> (pathResult @ ''/subresults'' \<in> set (dirs w) \<longrightarrow>
                 files w' (pathResult @ ''/subresults/021_AM_Reduced_2.png'')
                   = Some (imencode cv ''/021_AM_Reduced_2.png'' (Grey raster)))))
   \<and> (\<forall>w' v. segmentAM_noStructures cv w amBaseMap amWithRoads boundariesImage routesImage satellite pathResult
              = (w', Inr v) \<longrightarrow>
      v = FunctionObject ''segmentAM''
      \<and> (\<exists>w1 amDetailed w2 amDetailed' w3 raster.
            privatePropertyFiltering cv w amBaseMap boundariesImage routesImage pathResult
              = (w1, Inr amDetailed)
            \<and> structureFiltering cv w1 amDetailed amWithRoads pathResult = (w2, Inr amDetailed')
            \<and> routeAndVegFiltering cv w2 amDetailed' routesImage satellite pathResult = (w3, Inr raster)
            \<and> v \<noteq> Array (Grey raster)
            \<and> w' = imwrite cv w3 pathResult ''/segmented.jpg'' (Grey raster)
            \<and> (pathResult \<in> set (dirs w) \<longrightarrow>
                 files w' (pathResult @ ''/segmented.jpg'')
                   = Some (imencode cv ''/segmented.jpg'' (Grey raster)))
            \<and> (pathResult @ ''/subresults'' \<in> set (dirs w) \<longrightarrow>
                 files w' (pathResult @ ''/subresults/021_AM_Reduced_2.png'')
                   = Some (imencode cv ''/021_AM_Reduced_2.png'' (Grey raster)))))"
proof (intro conjI allI impI)
  fix w' v
  assume a: "segmentAM cv w amBaseMap amWithRoads boundariesImage routesImage satellite pathResult = (w', Inr v)"
  obtain w1 r1 where p: "privatePropertyFiltering cv w amBaseMap boundariesImage routesImage pathResult = (w1, r1)"
    by fastforce
  from a p obtain amDetailed where r1: "r1 = Inr amDetailed"
    by (cases r1) (auto simp: segmentAM_def)
  obtain w2 r2 where q: "routeAndVegFiltering cv w1 amDetailed routesImage satellite pathResult = (w2, r2)"
    by fastforce
  from a p r1 q obtain raster where r2: "r2 = Inr raster"
    by (cases r2) (auto simp: segmentAM_def)
  from a p r1 q r2 have w': "w' = imwrite cv w2 pathResult ''/segmented.jpg'' (Grey raster)"
    and v: "v = FunctionObject ''segmentAM''"
    by (auto simp: segmentAM_def)
  have "extends w w1" using ppf_extends[OF extends_refl, of w cv amBaseMap boundariesImage routesImage pathResult] p by simp
  then have d1: "dirs w1 = dirs w" by (simp add: extends_def)
  have "extends w1 w2" using rv_extends[OF extends_refl, of w1 cv amDetailed routesImage satellite pathResult] q by simp
  then have d: "dirs w2 = dirs w" using d1 by (simp add: extends_def)
  have red: "files w' (pathResult @ ''/subresults/021_AM_Reduced_2.png'')
                   = Some (imencode cv ''/021_AM_Reduced_2.png'' (Grey raster))"
    if "pathResult @ ''/subresults'' \<in> set (dirs w)"
    using rv_writes_reduced[OF q[unfolded r2]] that d1 unfolding w'
    by (simp add: files_imwrite_other)
  show "v = FunctionObject ''segmentAM''" by (rule v)
  show "\<exists>w1 amDetailed w2 raster.
            privatePropertyFiltering cv w amBaseMap boundariesImage routesImage pathResult
              = (w1, Inr amDetailed)
            \<and> routeAndVegFiltering cv w1 amDetailed routesImage satellite pathResult = (w2, Inr raster)
            \<and> v \<noteq> Array (Grey raster)
            \<and> w' = imwrite cv w2 pathResult ''/segmented.jpg'' (Grey raster)
            \<and> (pathResult \<in> set (dirs w) \<longrightarrow>
                 files w' (pathResult @ ''/segmented.jpg'')
                   = Some (imencode cv ''/segmented.jpg'' (Grey raster)))
            \<and> (pathResult @ ''/subresults'' \<in> set (dirs w) \<longrightarrow>
                 files w' (pathResult @ ''/subresults/021_AM_Reduced_2.png'')
                   = Some (imencode cv ''/021_AM_Reduced_2.png'' (Grey raster)))"
    using p r1 q r2 w' v d red by (auto simp: files_imwrite)
next
  fix w' v
  assume a: "segmentAM_noStructures cv w amBaseMap amWithRoads boundariesImage routesImage satellite pathResult = (w', Inr v)"
  obtain w1 r1 where p: "privatePropertyFiltering cv w amBaseMap boundariesImage routesImage pathResult = (w1, r1)"
    by fastforce
  from a p obtain amDetailed where r1: "r1 = Inr amDetailed"
    by (cases r1) (auto simp: segmentAM_noStructures_def)
  obtain w2 r2 where s: "structureFiltering cv w1 amDetailed amWithRoads pathResult = (w2, r2)"
    by fastforce
  from a p r1 s obtain amDetailed' where r2: "r2 = Inr amDetailed'"
    by (cases r2) (auto simp: segmentAM_noStructures_def)
  obtain w3 r3 where q: "routeAndVegFiltering cv w2 amDetailed' routesImage satellite pathResult = (w3, r3)"
    by fastforce
  from a p r1 s r2 q obtain raster where r3: "r3 = Inr raster"
    by (cases r3) (auto simp: segmentAM_noStructures_def)
  from a p r1 s r2 q r3 have w': "w' = imwrite cv w3 pathResult ''/segmented.jpg'' (Grey raster)"
    and v: "v = FunctionObject ''segmentAM''"
    by (auto simp: segmentAM_noStructures_def)
  have "extends w w1" using ppf_extends[OF extends_refl, of w cv amBaseMap boundariesImage routesImage pathResult] p by simp
  then have d1: "dirs w1 = dirs w" by (simp add: extends_def)
  have "extends w1 w2" using sf_extends[OF extends_refl, of w1 cv amDetailed amWithRoads pathResult] s by simp
  then have d2: "dirs w2 = dirs w" using d1 by (simp add: extends_def)
  have "extends w2 w3" using rv_extends[OF extends_refl, of w2 cv amDetailed' routesImage satellite pathResult] q by simp
  then have d: "dirs w3 = dirs w" using d2 by (simp add: extends_def)
  have red: "files w' (pathResult @ ''/subresults/021_AM_Reduced_2.png'')
                   = Some (imencode cv ''/021_AM_Reduced_2.png'' (Grey raster))"
    if "pathResult @ ''/subresults'' \<in> set (dirs w)"
    using rv_writes_reduced[OF q[unfolded r3]] that d2 unfolding w'
    by (simp add: files_imwrite_other)
  show "v = FunctionObject ''segmentAM''" by (rule v)
  show "\<exists>w1 amDetailed w2 amDetailed' w3 raster.
            privatePropertyFiltering cv w amBaseMap boundariesImage routesImage pathResult
              = (w1, Inr amDetailed)
            \<and> structureFiltering cv w1 amDetailed amWithRoads pathResult = (w2, Inr amDetailed')
            \<and> routeAndVegFiltering cv w2 amDetailed' routesImage satellite pathResult = (w3, Inr raster)
            \<and> v \<noteq> Array (Grey raster)
            \<and> w' = imwrite cv w3 pathResult ''/segmented.jpg'' (Grey raster)
            \<and> (pathResult \<in> set (dirs w) \<longrightarrow>
                 files w' (pathResult @ ''/segmented.jpg'')
                   = Some (imencode cv ''/segmented.jpg'' (Grey raster)))
            \<and> (pathResult @ ''/subresults'' \<in> set (dirs w) \<longrightarrow>
                 files w' (pathResult @ ''/subresults/021_AM_Reduced_2.png'')
                   = Some (imencode cv ''/021_AM_Reduced_2.png'' (Grey raster)))"
    using p r1 s r2 q r3 w' v d red by (auto simp: files_imwrite)
qed

theorem segmentAM_returns_function_witness:
  "(\<exists>w' raster. segmentAM (cv_example [])
      \<lparr>heap = (\<lambda>a. [[(255, 255, 255)]]), next_addr = 5, files = (\<lambda>p. None),
       dirs = [''out'', ''out/subresults''], stdout = []\<rparr> 0 1 2 3 4 ''out''
        = (w', Inr (FunctionObject ''segmentAM''))
      \<and> files w' ''out/segmented.jpg'' = Some (imencode (cv_example []) ''/segmented.jpg'' (Grey raster))
      \<and> files w' ''out/subresults/021_AM_Reduced_2.png''
          = Some (imencode (cv_example []) ''/021_AM_Reduced_2.png'' (Grey raster)))
   \<and> (\<exists>w' raster. segmentAM_noStructures (cv_example [])
      \<lparr>heap = (\<lambda>a. [[(255, 255, 255)]]), next_addr = 5, files = (\<lambda>p. None),
       dirs = [''out'', ''out/subresults''], stdout = []\<rparr> 0 1 2 3 4 ''out''
        = (w', Inr (FunctionObject ''segmentAM''))
      \<and> files w' ''out/segmented.jpg'' = Some (imencode (cv_example []) ''/segmented.jpg'' (Grey raster))
      \<and> files w' ''out/subresults/021_AM_Reduced_2.png''
          = Some (imencode (cv_example []) ''/021_AM_Reduced_2.png'' (Grey raster)))"
proof -
  let ?w = "\<lparr>heap = (\<lambda>a. [[(255, 255, 255)]]), next_addr = 5, files = (\<lambda>p. None),
       dirs = [''out'', ''out/subresults''], stdout = []\<rparr>"
  obtain w' where a: "segmentAM (cv_example []) ?w 0 1 2 3 4 ''out'' = (w', Inr (FunctionObject ''segmentAM''))"
    using segmentAM_example_run by (cases "segmentAM (cv_example []) ?w 0 1 2 3 4 ''out''") simp
  obtain w'' where b: "segmentAM_noStructures (cv_example []) ?w 0 1 2 3 4 ''out'' = (w'', Inr (FunctionObject ''segmentAM''))"
    using segmentAM_noStructures_example_run
    by (cases "segmentAM_noStructures (cv_example []) ?w 0 1 2 3 4 ''out''") simp
  have d: "''out'' \<in> set (dirs ?w)" "''out'' @ ''/subresults'' \<in> set (dirs ?w)" by simp_all
  note t = segmentAM_returns_function[of "cv_example []" ?w 0 1 2 3 4 "''out''"]
  from t a d have "\<exists>raster. files w' (''out'' @ ''/segmented.jpg'')
        = Some (imencode (cv_example []) ''/segmented.jpg'' (Grey raster))
      \<and> files w' (''out'' @ ''/subresults/021_AM_Reduced_2.png'')
        = Some (imencode (cv_example []) ''/021_AM_Reduced_2.png'' (Grey raster))"
    by blast
  moreover from t b d have "\<exists>raster. files w'' (''out'' @ ''/segmented.jpg'')
        = Some (imencode (cv_example []) ''/segmented.jpg'' (Grey raster))
      \<and> files w'' (''out'' @ ''/subresults/021_AM_Reduced_2.png'')
        = Some (imencode (cv_example []) ''/021_AM_Reduced_2.png'' (Grey raster))"
    by blast
  ultimately show ?thesis using a b by simp
qed

text \<open>
  After a run of \<open>segmentAM\<close> that returns, \<open>segmented.jpg\<close> and
  \<open>subresults/021_AM_Reduced_2.png\<close> hold the same raster, the one white pixel. With a base
  map that is wider than the boundaries image the call raises IndexError and returns nothing.
\<close>

theorem segmentAM_second_file_counterexample:
  "(case segmentAM (cv_example [])
      \<lparr>heap = (\<lambda>a. [[(255, 255, 255)]]), next_addr = 5, files = (\<lambda>p. None),
       dirs = [''out'', ''out/subresults''], stdout = []\<rparr> 0 1 2 3 4 ''out'' of
     (w', r) \<Rightarrow> r = Inr (FunctionObject ''segmentAM'')
        \<and> files w' ''out/segmented.jpg'' = Some [255]
        \<and> files w' ''out/subresults/021_AM_Reduced_2.png'' = Some [255])
   \<and> snd (segmentAM (cv_example [])
      \<lparr>heap = (\<lambda>a. [[(255, 255, 255)]])(0 := [[(255, 255, 255), (255, 255, 255)]]), next_addr = 5,
       files = (\<lambda>p. None), dirs = [''out'', ''out/subresults''], stdout = []\<rparr> 0 1 2 3 4 ''out'')
     = Inl IndexError"
  using segmentAM_example_run segmentAM_example_raise by simp

section \<open>The public mask of privatePropertyFiltering\<close>

lemma byte_not [simp]: "NOT (255 :: byte) = 0" "NOT (0 :: byte) = 255"
  by simp_all

text \<open>
  C5. The public mask of \<open>privatePropertyFiltering\<close> is 255 where the HSV pixel of the blurred
  boundaries image has its hue between 40 and 80 (OpenCV's hue, half the angle in degrees) and
  its saturation and value between 40 and 255, and 0 elsewhere. When the base map has the size
  of that image, the recolouring returns the base map with every pixel outside the mask set to
  red (0,0,255) and every pixel inside it as it was. The fill colour green (0,255,0), of hue
  60, is in the mask of the code and not in the range 20 to 40; yellow, of hue 30, is in that
  range and is recoloured by the code.
\<close>

theorem ppf_recolour_outside_public:
  assumes "same_shape amBaseMap (cvtColor_BGR2HSV cv boundariesImage)"
  shows "\<exists>out. ppf_recolour cv boundariesImage amBaseMap = Inr out \<and> same_shape out amBaseMap
     \<and> (\<forall>i<length amBaseMap. \<forall>j<length (amBaseMap ! i).
           ppf_public_mask cv boundariesImage ! i ! j
             = (if inRange_px (cvtColor_BGR2HSV cv boundariesImage ! i ! j) (40, 40, 40) (80, 255, 255)
                then 255 else 0)
         \<and> out ! i ! j
             = (if ppf_public_mask cv boundariesImage ! i ! j = 255 then amBaseMap ! i ! j
                else (0, 0, 255)))"
proof -
  let ?hsv = "cvtColor_BGR2HSV cv boundariesImage"
  let ?m = "ppf_public_mask cv boundariesImage"
  let ?n = "bitwise_not ?m"
  let ?out = "zip2d (\<lambda>p x. if x = 255 then (0, 0, 255) else p) amBaseMap ?n"
  have shn: "same_shape amBaseMap ?n"
    using assms by (simp add: same_shape_def bitwise_not_def ppf_public_mask_def inRange_def comp_def)
  have run: "ppf_recolour cv boundariesImage amBaseMap = Inr ?out"
    using shn by (simp add: ppf_recolour_def setitem_where_def Let_def)
  have sho: "same_shape ?out amBaseMap"
    unfolding same_shape_def
    by (rule nth_equalityI) (simp_all add: zip2d_length[OF shn] zip2d_row_length[OF shn])
  have px: "?m ! i ! j = (if inRange_px (?hsv ! i ! j) (40, 40, 40) (80, 255, 255) then 255 else 0)
         \<and> ?out ! i ! j = (if ?m ! i ! j = 255 then amBaseMap ! i ! j else (0, 0, 255))"
    if "i < length amBaseMap" "j < length (amBaseMap ! i)" for i j
  proof -
    have i: "i < length ?hsv" using that same_shape_length[OF assms] by simp
    have j: "j < length (?hsv ! i)" using that same_shape_row[OF assms] by simp
    have m: "?m ! i ! j = (if inRange_px (?hsv ! i ! j) (40, 40, 40) (80, 255, 255) then 255 else 0)"
      using i j by (simp add: ppf_public_mask_def inRange_def)
    have im: "i < length ?m" "j < length (?m ! i)"
      using i j by (simp_all add: ppf_public_mask_def inRange_def)
    have n: "?n ! i ! j = NOT (?m ! i ! j)"
      using im by (simp add: bitwise_not_def)
    show ?thesis
      using that m n by (simp add: zip2d_nth[OF shn])
  qed
  show ?thesis using run sho px by blast
qed

theorem ppf_recolour_outside_public_witness:
  "ppf_recolour (cv_example []) [[(0, 255, 0), (0, 0, 255)]] [[(1, 2, 3), (4, 5, 6)]]
     = Inr [[(1, 2, 3), (0, 0, 255)]]"
proof -
  have "same_shape [[(1, 2, 3), (4, 5, 6)]] (cvtColor_BGR2HSV (cv_example []) [[(0, 255, 0), (0, 0, 255)]])"
    by (simp add: same_shape_def cv_example_sel)
  from ppf_recolour_outside_public[OF this]
  obtain out where out: "ppf_recolour (cv_example []) [[(0, 255, 0), (0, 0, 255)]] [[(1, 2, 3), (4, 5, 6)]] = Inr out"
    and sh: "same_shape out [[(1 :: byte, 2 :: byte, 3 :: byte), (4, 5, 6)]]"
    and px: "\<forall>i<length [[(1 :: byte, 2 :: byte, 3 :: byte), (4, 5, 6)]]. \<forall>j<length ([[(1 :: byte, 2 :: byte, 3 :: byte), (4, 5, 6)]] ! i).
           ppf_public_mask (cv_example []) [[(0, 255, 0), (0, 0, 255)]] ! i ! j
             = (if inRange_px (cvtColor_BGR2HSV (cv_example []) [[(0, 255, 0), (0, 0, 255)]] ! i ! j) (40, 40, 40) (80, 255, 255)
                then 255 else 0)
         \<and> out ! i ! j
             = (if ppf_public_mask (cv_example []) [[(0, 255, 0), (0, 0, 255)]] ! i ! j = 255 then [[(1, 2, 3), (4, 5, 6)]] ! i ! j
                else (0, 0, 255))"
    by blast
  show ?thesis
    using out by (simp add: ppf_recolour_def ppf_public_mask_def cv_example_sel inRange_def inRange_px_def
        hsv_example_def bitwise_not_def setitem_where_def same_shape_def zip2d_def)
qed

theorem public_mask_hue_counterexample:
  "ppf_public_mask (cv_example []) [[(0, 255, 0), (0, 255, 255)]] = [[255, 0]]
   \<and> spec_public_mask (cv_example []) [[(0, 255, 0), (0, 255, 255)]] = [[0, 255]]
   \<and> inRange (cvtColor_BGR2HSV (cv_example []) [[(0, 255, 0), (0, 255, 255)]]) (10, 40, 40) (20, 255, 255)
       = [[0, 0]]
   \<and> ppf_recolour (cv_example []) [[(0, 255, 0), (0, 255, 255)]] [[(1, 2, 3), (4, 5, 6)]]
       = Inr [[(1, 2, 3), (0, 0, 255)]]"
  by (simp add: ppf_recolour_def ppf_public_mask_def spec_public_mask_def cv_example_sel inRange_def
      inRange_px_def hsv_example_def bitwise_not_def setitem_where_def same_shape_def zip2d_def)

section \<open>Loading the five images\<close>

lemma imread_spec:
  assumes "imread cv w path = (w', r)"
  shows "files w' = files w \<and> stdout w' = stdout w \<and> dirs w' = dirs w
     \<and> next_addr w \<le> next_addr w' \<and> (\<forall>a<next_addr w. heap w' a = heap w a)
     \<and> map_option (heap w') r = Option.bind (files w path) (imdecode cv)
     \<and> (\<forall>a. r = Some a \<longrightarrow> a < next_addr w')"
  using assms by (auto simp: imread_def alloc_def split: option.splits)

lemma map_option_heap_later:
  assumes "map_option (heap w1) r = x" "\<forall>a. r = Some a \<longrightarrow> a < next_addr w1"
    and "\<forall>a<next_addr w1. heap w2 a = heap w1 a"
  shows "map_option (heap w2) r = x"
  using assms by (cases r) auto

text \<open>
  C7. \<open>loadImages\<close> always returns five results and raises nothing. It reads the five files
  \<open>/AM_with_roads.png\<close>, \<open>/boundaries.png\<close>, \<open>/routes.png\<close>, \<open>/AM_Detailed.png\<close> and
  \<open>/satellite.png\<close> of the directory, in this order. Each result is None when its file is
  missing or does not decode, whatever the other four are, and otherwise a new array with the
  decoded image. No file is written and nothing is printed.
\<close>

theorem loadImages_none_on_failure:
  "\<exists>w' am_withRoads boundaries routes amBaseMap satellite.
     loadImages cv w pathMaps = (w', (am_withRoads, boundaries, routes, amBaseMap, satellite))
     \<and> files w' = files w \<and> stdout w' = stdout w
     \<and> map_option (heap w') am_withRoads
         = Option.bind (files w (pathMaps @ ''/AM_with_roads.png'')) (imdecode cv)
     \<and> map_option (heap w') boundaries
         = Option.bind (files w (pathMaps @ ''/boundaries.png'')) (imdecode cv)
     \<and> map_option (heap w') routes
         = Option.bind (files w (pathMaps @ ''/routes.png'')) (imdecode cv)
     \<and> map_option (heap w') amBaseMap
         = Option.bind (files w (pathMaps @ ''/AM_Detailed.png'')) (imdecode cv)
     \<and> map_option (heap w') satellite
         = Option.bind (files w (pathMaps @ ''/satellite.png'')) (imdecode cv)"
proof -
  obtain w1 r1 where 1: "imread cv w (pathMaps @ ''/AM_with_roads.png'') = (w1, r1)" by fastforce
  obtain w2 r2 where 2: "imread cv w1 (pathMaps @ ''/boundaries.png'') = (w2, r2)" by fastforce
  obtain w3 r3 where 3: "imread cv w2 (pathMaps @ ''/routes.png'') = (w3, r3)" by fastforce
  obtain w4 r4 where 4: "imread cv w3 (pathMaps @ ''/AM_Detailed.png'') = (w4, r4)" by fastforce
  obtain w5 r5 where 5: "imread cv w4 (pathMaps @ ''/satellite.png'') = (w5, r5)" by fastforce
  note s1 = imread_spec[OF 1] and s2 = imread_spec[OF 2] and s3 = imread_spec[OF 3]
    and s4 = imread_spec[OF 4] and s5 = imread_spec[OF 5]
  have run: "loadImages cv w pathMaps = (w5, (r1, r2, r3, r4, r5))"
    by (simp add: loadImages_def 1 2 3 4 5)
  have f: "files w1 = files w" "files w2 = files w" "files w3 = files w" "files w4 = files w"
    "files w5 = files w"
    using s1 s2 s3 s4 s5 by simp_all
  have o: "stdout w5 = stdout w" using s1 s2 s3 s4 s5 by simp
  have h12: "\<forall>a<next_addr w1. heap w2 a = heap w1 a" using s2 by blast
  have h23: "\<forall>a<next_addr w2. heap w3 a = heap w2 a" using s3 by blast
  have h34: "\<forall>a<next_addr w3. heap w4 a = heap w3 a" using s4 by blast
  have h45: "\<forall>a<next_addr w4. heap w5 a = heap w4 a" using s5 by blast
  have n: "next_addr w1 \<le> next_addr w2" "next_addr w2 \<le> next_addr w3"
    "next_addr w3 \<le> next_addr w4" "next_addr w4 \<le> next_addr w5"
    using s2 s3 s4 s5 by simp_all
  have h35: "\<forall>a<next_addr w3. heap w5 a = heap w3 a" using h34 h45 n by auto
  have h25: "\<forall>a<next_addr w2. heap w5 a = heap w2 a" using h23 h35 n by auto
  have h15: "\<forall>a<next_addr w1. heap w5 a = heap w1 a" using h12 h25 n by auto
  have m1: "map_option (heap w1) r1 = Option.bind (files w (pathMaps @ ''/AM_with_roads.png'')) (imdecode cv)"
    and b1: "\<forall>a. r1 = Some a \<longrightarrow> a < next_addr w1"
    using s1 by blast+
  have m2: "map_option (heap w2) r2 = Option.bind (files w1 (pathMaps @ ''/boundaries.png'')) (imdecode cv)"
    and b2: "\<forall>a. r2 = Some a \<longrightarrow> a < next_addr w2"
    using s2 by blast+
  have m3: "map_option (heap w3) r3 = Option.bind (files w2 (pathMaps @ ''/routes.png'')) (imdecode cv)"
    and b3: "\<forall>a. r3 = Some a \<longrightarrow> a < next_addr w3"
    using s3 by blast+
  have m4: "map_option (heap w4) r4 = Option.bind (files w3 (pathMaps @ ''/AM_Detailed.png'')) (imdecode cv)"
    and b4: "\<forall>a. r4 = Some a \<longrightarrow> a < next_addr w4"
    using s4 by blast+
  have m5: "map_option (heap w5) r5 = Option.bind (files w4 (pathMaps @ ''/satellite.png'')) (imdecode cv)"
    using s5 by blast
  have a1: "map_option (heap w5) r1 = Option.bind (files w (pathMaps @ ''/AM_with_roads.png'')) (imdecode cv)"
    by (rule map_option_heap_later[OF m1 b1 h15])
  have a2: "map_option (heap w5) r2 = Option.bind (files w (pathMaps @ ''/boundaries.png'')) (imdecode cv)"
    using map_option_heap_later[OF m2 b2 h25] by (simp only: f)
  have a3: "map_option (heap w5) r3 = Option.bind (files w (pathMaps @ ''/routes.png'')) (imdecode cv)"
    using map_option_heap_later[OF m3 b3 h35] by (simp only: f)
  have a4: "map_option (heap w5) r4 = Option.bind (files w (pathMaps @ ''/AM_Detailed.png'')) (imdecode cv)"
    using map_option_heap_later[OF m4 b4 h45] by (simp only: f)
  have a5: "map_option (heap w5) r5 = Option.bind (files w (pathMaps @ ''/satellite.png'')) (imdecode cv)"
    using m5 by (simp only: f)
  show ?thesis using run f(5) o a1 a2 a3 a4 a5 by blast
qed


theorem loadImages_none_on_failure_witness:
  "\<exists>w' a. loadImages (cv_example [])
       \<lparr>heap = (\<lambda>a. []), next_addr = 0,
        files = ((\<lambda>p. None)(''maps/routes.png'' := Some [7], ''maps/boundaries.png'' := Some [])),
        dirs = [''maps''], stdout = []\<rparr> ''maps''
     = (w', (None, None, Some a, None, None)) \<and> heap w' a = [[(7, 7, 7)]]"
proof -
  let ?w = "\<lparr>heap = (\<lambda>a. []), next_addr = 0,
        files = ((\<lambda>p. None)(''maps/routes.png'' := Some [7 :: byte], ''maps/boundaries.png'' := Some [])),
        dirs = [''maps''], stdout = []\<rparr>"
  from loadImages_none_on_failure[of "cv_example []" ?w "''maps''"]
  obtain w' r1 r2 r3 r4 r5 where run: "loadImages (cv_example []) ?w ''maps'' = (w', (r1, r2, r3, r4, r5))"
    and 1: "map_option (heap w') r1 = Option.bind (files ?w (''maps'' @ ''/AM_with_roads.png'')) (imdecode (cv_example []))"
    and 2: "map_option (heap w') r2 = Option.bind (files ?w (''maps'' @ ''/boundaries.png'')) (imdecode (cv_example []))"
    and 3: "map_option (heap w') r3 = Option.bind (files ?w (''maps'' @ ''/routes.png'')) (imdecode (cv_example []))"
    and 4: "map_option (heap w') r4 = Option.bind (files ?w (''maps'' @ ''/AM_Detailed.png'')) (imdecode (cv_example []))"
    and 5: "map_option (heap w') r5 = Option.bind (files ?w (''maps'' @ ''/satellite.png'')) (imdecode (cv_example []))"
    by blast
  have "r1 = None" using 1 by (simp add: cv_example_sel)
  moreover have "r2 = None" using 2 by (simp add: cv_example_sel)
  moreover have "\<exists>a. r3 = Some a \<and> heap w' a = [[(7, 7, 7)]]" using 3 by (simp add: cv_example_sel)
  moreover have "r4 = None" using 4 by (simp add: cv_example_sel)
  moreover have "r5 = None" using 5 by (simp add: cv_example_sel)
  ultimately show ?thesis using run by auto
qed

section \<open>Properties of the fetchers\<close>





end
